theory Spec2Isabelle
  imports Main "HOL-Library.Word"
begin

section \<open>Strings and values of the runtime\<close>

text \<open>
  The route handler \<^verbatim>\<open>POST\<close> of \<^verbatim>\<open>app/api/research/route.ts\<close> is written in
  TypeScript. A string of the runtime is a sequence of 16-bit code units: \<^verbatim>\<open>length\<close>
  and \<^verbatim>\<open>slice\<close> count code units, so the model keeps them as such. \<open>ascii\<close> writes an
  ASCII literal; a code unit outside ASCII is spliced in by its number.
\<close>

type_synonym code_unit = "16 word"
type_synonym js_string = "code_unit list"

definition ascii :: "string \<Rightarrow> js_string" where
  "ascii s = map of_char s"

text \<open>The values \<^verbatim>\<open>JSON.parse\<close> builds. A number is kept as its source lexeme.\<close>

datatype json =
    JNull
  | JBool bool
  | JNum js_string
  | JStr js_string
  | JArr "json list"
  | JObj "(js_string \<times> json) list"

text \<open>A value read from a property that may be absent: \<open>None\<close> is \<^verbatim>\<open>undefined\<close>.\<close>

type_synonym js_value = "json option"

text \<open>
  What a \<^verbatim>\<open>throw\<close> carries. The outer \<^verbatim>\<open>catch\<close> asks \<^verbatim>\<open>err instanceof Error\<close>, so the
  model separates an \<^verbatim>\<open>Error\<close> object (with its message) from any other thrown value.
\<close>

datatype thrown = ErrorObj js_string | NonError

section \<open>\<^verbatim>\<open>JSON.parse\<close>\<close>

text \<open>
  The planner's text goes through the built-in \<^verbatim>\<open>JSON.parse\<close>. The model follows
  the JSON grammar (ECMA-404): a lexer on code units, then a pushdown recogniser on
  tokens that builds the value. \<open>None\<close> is the \<^verbatim>\<open>SyntaxError\<close> the built-in throws.
\<close>

datatype token =
    TLBrace | TRBrace | TLBrack | TRBrack | TColon | TComma
  | TString js_string | TNumber js_string | TTrue | TFalse | TNull

definition is_json_ws :: "code_unit \<Rightarrow> bool" where
  "is_json_ws c \<longleftrightarrow> c = 0x20 \<or> c = 0x09 \<or> c = 0x0A \<or> c = 0x0D"

definition is_digit :: "code_unit \<Rightarrow> bool" where
  "is_digit c \<longleftrightarrow> 0x30 \<le> c \<and> c \<le> 0x39"

definition hex_val :: "code_unit \<Rightarrow> nat option" where
  "hex_val c =
     (if 0x30 \<le> c \<and> c \<le> 0x39 then Some (unat c - 0x30)
      else if 0x41 \<le> c \<and> c \<le> 0x46 then Some (unat c - 0x37)
      else if 0x61 \<le> c \<and> c \<le> 0x66 then Some (unat c - 0x57)
      else None)"

text \<open>The code unit of \<^verbatim>\<open>\uXXXX\<close>.\<close>

definition hex4 :: "code_unit \<Rightarrow> code_unit \<Rightarrow> code_unit \<Rightarrow> code_unit \<Rightarrow> code_unit option" where
  "hex4 a b c d =
     (case (hex_val a, hex_val b, hex_val c, hex_val d) of
        (Some w, Some x, Some y, Some z) \<Rightarrow> Some (of_nat (((w * 16 + x) * 16 + y) * 16 + z))
      | _ \<Rightarrow> None)"

text \<open>The single-character escapes: \<^verbatim>\<open>\" \\ \/ \b \f \n \r \t\<close>.\<close>

definition escape_char :: "code_unit \<Rightarrow> code_unit option" where
  "escape_char e =
     (if e = 0x22 then Some 0x22
      else if e = 0x5C then Some 0x5C
      else if e = 0x2F then Some 0x2F
      else if e = 0x62 then Some 0x08
      else if e = 0x66 then Some 0x0C
      else if e = 0x6E then Some 0x0A
      else if e = 0x72 then Some 0x0D
      else if e = 0x74 then Some 0x09
      else None)"

text \<open>
  \<open>lex_string\<close> reads a string literal after its opening quote and returns the decoded
  text and the input after the closing quote. A raw control character is refused.
\<close>

fun lex_string :: "js_string \<Rightarrow> (js_string \<times> js_string) option" where
  "lex_string [] = None"
| "lex_string (c # cs) =
     (if c = 0x22 then Some ([], cs)
      else if c = 0x5C then
        (case cs of
           [] \<Rightarrow> None
         | e # r \<Rightarrow>
             if e = 0x75 then
               (case r of
                  h1 # h2 # h3 # h4 # r' \<Rightarrow>
                    (case hex4 h1 h2 h3 h4 of
                       None \<Rightarrow> None
                     | Some u \<Rightarrow> map_option (\<lambda>(s, t). (u # s, t)) (lex_string r'))
                | _ \<Rightarrow> None)
             else
               (case escape_char e of
                  None \<Rightarrow> None
                | Some u \<Rightarrow> map_option (\<lambda>(s, t). (u # s, t)) (lex_string r)))
      else if c < 0x20 then None
      else map_option (\<lambda>(s, t). (c # s, t)) (lex_string cs))"

text \<open>The fraction and the exponent of a number; each is optional, and once begun needs a digit.\<close>

definition lex_frac :: "js_string \<Rightarrow> (js_string \<times> js_string) option" where
  "lex_frac s =
     (case s of
        [] \<Rightarrow> Some ([], s)
      | c # r \<Rightarrow>
          if c = 0x2E then
            (if takeWhile is_digit r = [] then None
             else Some (c # takeWhile is_digit r, dropWhile is_digit r))
          else Some ([], s))"

definition lex_exp :: "js_string \<Rightarrow> (js_string \<times> js_string) option" where
  "lex_exp s =
     (case s of
        [] \<Rightarrow> Some ([], s)
      | c # r \<Rightarrow>
          if c = 0x65 \<or> c = 0x45 then
            (let sg = (if r \<noteq> [] \<and> (hd r = 0x2B \<or> hd r = 0x2D) then [hd r] else []);
                 r1 = drop (length sg) r
             in if takeWhile is_digit r1 = [] then None
                else Some (c # sg @ takeWhile is_digit r1, dropWhile is_digit r1))
          else Some ([], s))"

text \<open>
  A number: an optional minus, the integer part (a single \<^verbatim>\<open>0\<close>, or digits not starting
  with \<^verbatim>\<open>0\<close>), a fraction, an exponent. A digit run with a leading zero is refused at once:
  the grammar allows no value to follow the \<^verbatim>\<open>0\<close> directly, so the text is rejected either way.
\<close>

definition lex_number :: "js_string \<Rightarrow> (js_string \<times> js_string) option" where
  "lex_number s =
     (let sg = (if s \<noteq> [] \<and> hd s = 0x2D then [hd s] else []);
          s1 = drop (length sg) s;
          ds = takeWhile is_digit s1
      in if ds = [] \<or> (hd ds = 0x30 \<and> tl ds \<noteq> []) then None
         else
           (case lex_frac (dropWhile is_digit s1) of
              None \<Rightarrow> None
            | Some (f, s2) \<Rightarrow>
                (case lex_exp s2 of
                   None \<Rightarrow> None
                 | Some (e, s3) \<Rightarrow> Some (sg @ ds @ f @ e, s3))))"

definition lex_keyword :: "js_string \<Rightarrow> (token \<times> js_string) option" where
  "lex_keyword s =
     (if take 4 s = ascii ''true'' then Some (TTrue, drop 4 s)
      else if take 5 s = ascii ''false'' then Some (TFalse, drop 5 s)
      else if take 4 s = ascii ''null'' then Some (TNull, drop 4 s)
      else None)"

lemma lex_string_shorter: "lex_string s = Some (t, r) \<Longrightarrow> length r < length s"
proof (induction s arbitrary: t r rule: lex_string.induct)
  case 1
  then show ?case by simp
next
  case (2 c cs)
  then show ?case
    by (fastforce split: if_splits list.splits option.splits)
qed

lemma lex_frac_shorter: "lex_frac s = Some (f, r) \<Longrightarrow> length r \<le> length s"
  by (auto simp: lex_frac_def split: list.splits if_splits
      intro: le_trans [OF length_dropWhile_le])

lemma lex_exp_shorter: "lex_exp s = Some (e, r) \<Longrightarrow> length r \<le> length s"
  by (auto simp: lex_exp_def Let_def split: list.splits if_splits
      intro: le_trans [OF length_dropWhile_le])

lemma lex_number_shorter:
  assumes "lex_number s = Some (n, r)"
  shows "length r < length s"
proof -
  define s1 where "s1 = drop (length (if s \<noteq> [] \<and> hd s = 0x2D then [hd s] else [])) s"
  from assms obtain f s2 e where
    ds: "takeWhile is_digit s1 \<noteq> []" and
    fr: "lex_frac (dropWhile is_digit s1) = Some (f, s2)" and
    ex: "lex_exp s2 = Some (e, r)"
    by (auto simp: lex_number_def Let_def s1_def split: if_splits option.splits)
  have "length (takeWhile is_digit s1) + length (dropWhile is_digit s1) = length s1"
    by (metis length_append takeWhile_dropWhile_id)
  with ds have "length (dropWhile is_digit s1) < length s1"
    by (cases "takeWhile is_digit s1") auto
  moreover have "length s1 \<le> length s"
    by (simp add: s1_def)
  moreover have "length r \<le> length (dropWhile is_digit s1)"
    using lex_frac_shorter [OF fr] lex_exp_shorter [OF ex] by simp
  ultimately show ?thesis by simp
qed

lemma lex_keyword_shorter: "lex_keyword s = Some (t, r) \<Longrightarrow> length r < length s"
  by (cases s) (auto simp: lex_keyword_def ascii_def split: if_splits)

function lex :: "js_string \<Rightarrow> token list option" where
  "lex [] = Some []"
| "lex (c # cs) =
     (if is_json_ws c then lex cs
      else if c = 0x7B then map_option (Cons TLBrace) (lex cs)
      else if c = 0x7D then map_option (Cons TRBrace) (lex cs)
      else if c = 0x5B then map_option (Cons TLBrack) (lex cs)
      else if c = 0x5D then map_option (Cons TRBrack) (lex cs)
      else if c = 0x3A then map_option (Cons TColon) (lex cs)
      else if c = 0x2C then map_option (Cons TComma) (lex cs)
      else if c = 0x22 then
        (case lex_string cs of
           None \<Rightarrow> None
         | Some (s, r) \<Rightarrow> map_option (Cons (TString s)) (lex r))
      else if c = 0x2D \<or> is_digit c then
        (case lex_number (c # cs) of
           None \<Rightarrow> None
         | Some (n, r) \<Rightarrow> map_option (Cons (TNumber n)) (lex r))
      else
        (case lex_keyword (c # cs) of
           None \<Rightarrow> None
         | Some (t, r) \<Rightarrow> map_option (Cons t) (lex r)))"
  by pat_completeness auto
termination
proof (relation "measure length")
  show "wf (measure length)" by simp
next
  fix c cs x2 x y
  assume "lex_string cs = Some x2" "(x, y) = x2"
  then show "(y, c # cs) \<in> measure length"
    using lex_string_shorter [of cs x y] by simp
next
  fix c cs x2 x y
  assume "lex_number (c # cs) = Some x2" "(x, y) = x2"
  then show "(y, c # cs) \<in> measure length"
    using lex_number_shorter [of "c # cs" x y] by simp
next
  fix c cs x2 x y
  assume "lex_keyword (c # cs) = Some x2" "(x, y) = x2"
  then show "(y, c # cs) \<in> measure length"
    using lex_keyword_shorter [of "c # cs" x y] by simp
qed simp_all

text \<open>
  The recogniser keeps the enclosing arrays and objects on a stack. A frame holds what
  was read of its container so far (latest first), and for an object the key whose value
  is being read.
\<close>

datatype frame =
    InArray "json list"
  | InObject "(js_string \<times> json) list" js_string

datatype pstate =
    WantValue "frame list"
  | WantFirstElem "frame list"
  | AfterElem "json list" "frame list"
  | WantFirstKey "frame list"
  | WantKey "(js_string \<times> json) list" "frame list"
  | WantColon "(js_string \<times> json) list" js_string "frame list"
  | AfterMember "(js_string \<times> json) list" "frame list"
  | Complete json

text \<open>A value is finished: it goes into the container on top of the stack.\<close>

fun close_value :: "json \<Rightarrow> frame list \<Rightarrow> pstate" where
  "close_value v [] = Complete v"
| "close_value v (InArray es # st) = AfterElem (v # es) st"
| "close_value v (InObject ms k # st) = AfterMember ((k, v) # ms) st"

fun begin_value :: "frame list \<Rightarrow> token \<Rightarrow> pstate option" where
  "begin_value st (TString s) = Some (close_value (JStr s) st)"
| "begin_value st (TNumber n) = Some (close_value (JNum n) st)"
| "begin_value st TTrue = Some (close_value (JBool True) st)"
| "begin_value st TFalse = Some (close_value (JBool False) st)"
| "begin_value st TNull = Some (close_value JNull st)"
| "begin_value st TLBrack = Some (WantFirstElem st)"
| "begin_value st TLBrace = Some (WantFirstKey st)"
| "begin_value st _ = None"

fun pstep :: "pstate \<Rightarrow> token \<Rightarrow> pstate option" where
  "pstep (WantValue st) t = begin_value st t"
| "pstep (WantFirstElem st) t =
     (if t = TRBrack then Some (close_value (JArr []) st) else begin_value (InArray [] # st) t)"
| "pstep (AfterElem es st) t =
     (if t = TComma then Some (WantValue (InArray es # st))
      else if t = TRBrack then Some (close_value (JArr (rev es)) st)
      else None)"
| "pstep (WantFirstKey st) t =
     (case t of
        TRBrace \<Rightarrow> Some (close_value (JObj []) st)
      | TString k \<Rightarrow> Some (WantColon [] k st)
      | _ \<Rightarrow> None)"
| "pstep (WantKey ms st) t =
     (case t of TString k \<Rightarrow> Some (WantColon ms k st) | _ \<Rightarrow> None)"
| "pstep (WantColon ms k st) t =
     (if t = TColon then Some (WantValue (InObject ms k # st)) else None)"
| "pstep (AfterMember ms st) t =
     (if t = TComma then Some (WantKey ms st)
      else if t = TRBrace then Some (close_value (JObj (rev ms)) st)
      else None)"
| "pstep (Complete v) t = None"

fun run_tokens :: "pstate \<Rightarrow> token list \<Rightarrow> pstate option" where
  "run_tokens s [] = Some s"
| "run_tokens s (t # ts) = (case pstep s t of None \<Rightarrow> None | Some s' \<Rightarrow> run_tokens s' ts)"

definition JSON_parse :: "js_string \<Rightarrow> json option" where
  "JSON_parse s =
     (case lex s of
        None \<Rightarrow> None
      | Some ts \<Rightarrow>
          (case run_tokens (WantValue []) ts of
             Some (Complete v) \<Rightarrow> Some v
           | _ \<Rightarrow> None))"

section \<open>Regular expressions and string helpers of the route\<close>

text \<open>
  \<^verbatim>\<open>raw.match(/\{[\s\S]*\}/)?.[0]\<close>: the match starts at the first \<^verbatim>\<open>{\<close> and, the star
  being greedy over every code unit, ends at the last \<^verbatim>\<open>}\<close> after it. There is no
  match when the text has no \<^verbatim>\<open>{\<close>, or no \<^verbatim>\<open>}\<close> after the first one.
\<close>

definition match_braces :: "js_string \<Rightarrow> js_string option" where
  "match_braces raw =
     (let s = dropWhile (\<lambda>c. c \<noteq> 0x7B) raw
      in if s \<noteq> [] \<and> 0x7D \<in> set s
         then Some (rev (dropWhile (\<lambda>c. c \<noteq> 0x7D) (rev s)))
         else None)"

text \<open>
  \<^verbatim>\<open>excerpt.replace(/<[^>]+>/g, '')\<close>: a tag is \<^verbatim>\<open><\<close>, one or more code units other
  than \<^verbatim>\<open>>\<close>, then \<^verbatim>\<open>>\<close>. The scan goes left to right and resumes after each match.
\<close>

definition tag_follows :: "js_string \<Rightarrow> bool" where
  "tag_follows cs \<longleftrightarrow> takeWhile (\<lambda>c. c \<noteq> 0x3E) cs \<noteq> [] \<and> dropWhile (\<lambda>c. c \<noteq> 0x3E) cs \<noteq> []"

function strip_tags :: "js_string \<Rightarrow> js_string" where
  "strip_tags [] = []"
| "strip_tags (c # cs) =
     (if c = 0x3C \<and> tag_follows cs
      then strip_tags (tl (dropWhile (\<lambda>c. c \<noteq> 0x3E) cs))
      else c # strip_tags cs)"
  by pat_completeness auto
termination
proof (relation "measure length")
  show "wf (measure length)" by simp
next
  fix c :: code_unit and cs :: js_string
  have "length (tl (dropWhile (\<lambda>c. c \<noteq> 0x3E) cs)) \<le> length cs"
    using length_dropWhile_le [of "\<lambda>c. c \<noteq> 0x3E" cs] by simp
  then show "(tl (dropWhile (\<lambda>c. c \<noteq> 0x3E) cs), c # cs) \<in> measure length"
    by simp
qed simp

text \<open>Whether a tag (a match of the expression) starts somewhere in the text.\<close>

fun has_tag :: "js_string \<Rightarrow> bool" where
  "has_tag [] = False"
| "has_tag (c # cs) = ((c = 0x3C \<and> tag_follows cs) \<or> has_tag cs)"

text \<open>\<^verbatim>\<open>String.prototype.trim\<close> removes white space and line terminators at both ends.\<close>

definition is_js_space :: "code_unit \<Rightarrow> bool" where
  "is_js_space c \<longleftrightarrow>
     (0x09 \<le> c \<and> c \<le> 0x0D) \<or> c = 0x20 \<or> c = 0xA0 \<or> c = 0x1680 \<or>
     (0x2000 \<le> c \<and> c \<le> 0x200A) \<or> c = 0x2028 \<or> c = 0x2029 \<or> c = 0x202F \<or>
     c = 0x205F \<or> c = 0x3000 \<or> c = 0xFEFF"

definition trim :: "js_string \<Rightarrow> js_string" where
  "trim s = rev (dropWhile is_js_space (rev (dropWhile is_js_space s)))"

text \<open>\<^verbatim>\<open>Array.prototype.join\<close> on an array of strings.\<close>

fun join :: "js_string \<Rightarrow> js_string list \<Rightarrow> js_string" where
  "join sep [] = []"
| "join sep [x] = x"
| "join sep (x # y # ys) = x @ sep @ join sep (y # ys)"

text \<open>
  A string that may be \<^verbatim>\<open>undefined\<close>, put into a template literal or a URL component:
  \<^verbatim>\<open>undefined\<close> reads as the text \<^verbatim>\<open>undefined\<close>.
\<close>

definition to_string :: "js_string option \<Rightarrow> js_string" where
  "to_string v = (case v of None \<Rightarrow> ascii ''undefined'' | Some s \<Rightarrow> s)"

text \<open>
  The built-in \<^verbatim>\<open>encodeURIComponent\<close>. Letters, digits and \<^verbatim>\<open>- _ . ! ~ * ' ( )\<close> stay;
  every other code point is written as the octets of its UTF-8 form, each as \<^verbatim>\<open>%\<close>
  and two hexadecimal digits. A surrogate without its partner has no code point: the
  built-in throws a \<^verbatim>\<open>URIError\<close>, with the message the runtime (V8) gives it.
\<close>

definition is_unreserved :: "code_unit \<Rightarrow> bool" where
  "is_unreserved c \<longleftrightarrow>
     (0x41 \<le> c \<and> c \<le> 0x5A) \<or> (0x61 \<le> c \<and> c \<le> 0x7A) \<or> (0x30 \<le> c \<and> c \<le> 0x39) \<or>
     c \<in> set (ascii ''-_.!~*()'') \<or> c = 0x27"

definition is_lead_surrogate :: "code_unit \<Rightarrow> bool" where
  "is_lead_surrogate c \<longleftrightarrow> 0xD800 \<le> c \<and> c \<le> 0xDBFF"

definition is_trail_surrogate :: "code_unit \<Rightarrow> bool" where
  "is_trail_surrogate c \<longleftrightarrow> 0xDC00 \<le> c \<and> c \<le> 0xDFFF"

definition utf8_octets :: "nat \<Rightarrow> nat list" where
  "utf8_octets cp =
     (if cp < 0x80 then [cp]
      else if cp < 0x800 then [0xC0 + cp div 0x40, 0x80 + cp mod 0x40]
      else if cp < 0x10000 then
        [0xE0 + cp div 0x1000, 0x80 + (cp div 0x40) mod 0x40, 0x80 + cp mod 0x40]
      else
        [0xF0 + cp div 0x40000, 0x80 + (cp div 0x1000) mod 0x40,
         0x80 + (cp div 0x40) mod 0x40, 0x80 + cp mod 0x40])"

definition hex_digit :: "nat \<Rightarrow> code_unit" where
  "hex_digit d = (if d < 10 then of_nat (0x30 + d) else of_nat (0x37 + d))"

definition percent_encoded :: "nat \<Rightarrow> js_string" where
  "percent_encoded cp =
     concat (map (\<lambda>b. [0x25, hex_digit (b div 16), hex_digit (b mod 16)]) (utf8_octets cp))"

definition uri_malformed :: js_string where
  "uri_malformed = ascii ''URI malformed''"

fun encodeURIComponent :: "js_string \<Rightarrow> thrown + js_string" where
  "encodeURIComponent [] = Inr []"
| "encodeURIComponent (c # cs) =
     (if is_unreserved c then map_sum id (Cons c) (encodeURIComponent cs)
      else if is_trail_surrogate c then Inl (ErrorObj uri_malformed)
      else if is_lead_surrogate c then
        (case cs of
           [] \<Rightarrow> Inl (ErrorObj uri_malformed)
         | d # ds \<Rightarrow>
             if is_trail_surrogate d
             then map_sum id
                    (append (percent_encoded
                       (0x10000 + (unat c - 0xD800) * 0x400 + (unat d - 0xDC00))))
                    (encodeURIComponent ds)
             else Inl (ErrorObj uri_malformed))
      else map_sum id (append (percent_encoded (unat c))) (encodeURIComponent cs))"

section \<open>The language-model client\<close>

text \<open>
  A content block of a model response (\<^verbatim>\<open>Anthropic.ContentBlock\<close>): text, a tool
  invocation request (id, name, input), or a block of another type. The input is read
  through the casts the route applies to it (\<^verbatim>\<open>Record<string, string>\<close>).
\<close>

type_synonym tool_input = "(js_string \<times> js_string) list"

datatype content_block =
    is_text: TextBlock (block_text: js_string)
  | is_tool_use: ToolUseBlock (use_id: js_string) (use_name: js_string) (use_input: tool_input)
  | OtherBlock

datatype stop_reason = end_turn | max_tokens_reached | stop_sequence | tool_use | pause_turn | refusal

record message =
  content :: "content_block list"
  stop_reason :: stop_reason

text \<open>
  A template literal is kept as its pieces: the literal chunks and the values
  substituted between them. Where the conversion of a substituted value can throw, the
  handler's model asks \<open>template_throws\<close> before it builds the template.
\<close>

datatype part = Lit js_string | Sub js_value

type_synonym template = "part list"

datatype tool_result_block = ToolResult (tool_use_id: js_string) (result_content: js_string)

datatype msg_role = user | assistant

datatype msg_content =
    Plain template
  | Blocks "content_block list"
  | ToolResults "tool_result_block list"

datatype message_param = MessageParam (role: msg_role) (body: msg_content)

text \<open>The keys of \<^verbatim>\<open>SYSTEM_PROMPTS\<close> (\<^verbatim>\<open>lib/types.ts\<close>) and the tool schema.\<close>

datatype system_prompt = supervisor_prompt | researcher_prompt | synthesizer_prompt

definition RESEARCHER_TOOLS :: "js_string list" where
  "RESEARCHER_TOOLS = [ascii ''search_wikipedia'', ascii ''get_wikipedia_article'']"

record request =
  model :: js_string
  max_tokens :: nat
  system :: system_prompt
  tools :: "js_string list"
  messages :: "message_param list"

section \<open>The knowledge source\<close>

text \<open>
  What \<^verbatim>\<open>await fetch(url)\<close> followed by \<^verbatim>\<open>await res.json()\<close> can do: the request is
  rejected (the network fails), or a response arrives with its \<^verbatim>\<open>ok\<close> flag and a body
  that decodes or does not. The decoded bodies have the shape the route reads.
\<close>

datatype 'a fetch_result = Rejects thrown | Responds bool "thrown + 'a"

datatype page = Page (p_title: js_string) (excerpt: "js_string option")

record search_data =
  pages :: "page list option"

record summary_data =
  summary_extract :: "js_string option"

text \<open>
  The world outside the handler: the model client, and the two endpoints of the
  knowledge source, addressed by what the handler puts into the URL: the encoded query
  and the \<^verbatim>\<open>limit\<close>, and the encoded title.
\<close>

record env =
  messages_create :: "request \<Rightarrow> thrown + message"
  fetch_search :: "js_string \<Rightarrow> nat \<Rightarrow> search_data fetch_result"
  fetch_summary :: "js_string \<Rightarrow> summary_data fetch_result"

datatype candidate = Candidate (r_title: js_string) (snippet: js_string)

definition searchWikipedia :: "env \<Rightarrow> js_string option \<Rightarrow> thrown + candidate list" where
  "searchWikipedia env query =
     (case encodeURIComponent (to_string query) of
        Inl e \<Rightarrow> Inl e
      | Inr q \<Rightarrow>
          (case fetch_search env q 5 of
             Rejects e \<Rightarrow> Inl e
           | Responds ok res \<Rightarrow>
               if \<not> ok then Inr []
               else
                 (case res of
                    Inl e \<Rightarrow> Inl e
                  | Inr data \<Rightarrow>
                      Inr (map (\<lambda>p. Candidate (p_title p)
                                      (case excerpt p of None \<Rightarrow> [] | Some x \<Rightarrow> strip_tags x))
                             (case pages data of None \<Rightarrow> [] | Some ps \<Rightarrow> ps)))))"

definition article_not_found :: js_string where
  "article_not_found = ascii ''No se encontr'' @ [0xF3] @ ascii '' el art'' @ [0xED] @ ascii ''culo: ''"

definition article_without_content :: js_string where
  "article_without_content = ascii ''Art'' @ [0xED] @ ascii ''culo sin contenido.''"

definition getWikipediaArticle :: "env \<Rightarrow> js_string option \<Rightarrow> thrown + js_string" where
  "getWikipediaArticle env title =
     (case encodeURIComponent (to_string title) of
        Inl e \<Rightarrow> Inl e
      | Inr t \<Rightarrow>
          (case fetch_summary env t of
             Rejects e \<Rightarrow> Inl e
           | Responds ok res \<Rightarrow>
               if \<not> ok then Inr (article_not_found @ to_string title)
               else
                 (case res of
                    Inl e \<Rightarrow> Inl e
                  | Inr data \<Rightarrow>
                      Inr (case summary_extract data of
                             None \<Rightarrow> article_without_content
                           | Some x \<Rightarrow> x))))"

section \<open>Events\<close>

text \<open>
  \<^verbatim>\<open>AgentEvent\<close> of \<^verbatim>\<open>lib/types.ts\<close>. \<^verbatim>\<open>emit\<close> encodes an event and appends it to the
  response stream; the model keeps the list of events in emission order.
\<close>

datatype agent = researcher | synthesizer

datatype agent_event =
    supervisor_start js_string
  | supervisor_plan js_value js_value
  | supervisor_delegate agent template
  | supervisor_review js_string
  | supervisor_done
  | researcher_start
  | researcher_thinking js_string
  | researcher_tool_call js_string tool_input
  | researcher_tool_result js_string js_string "nat option"
  | researcher_done
  | synthesizer_start
  | synthesizer_done js_string
  | error_event js_string

section \<open>The tool loop of the researcher\<close>

definition no_results :: js_string where
  "no_results = ascii ''Sin resultados.''"

definition no_results_preview :: js_string where
  "no_results_preview = ascii ''Sin resultados''"

definition unknown_tool :: js_string where
  "unknown_tool = ascii ''Herramienta desconocida.''"

definition ellipsis :: code_unit where
  "ellipsis = 0x2026"

definition bullet_line :: "candidate \<Rightarrow> js_string" where
  "bullet_line r = [0x2022] @ ascii '' '' @ r_title r @ ascii '': '' @ snippet r"

text \<open>
  One pass of the body of \<^verbatim>\<open>for (const block of toolUseBlocks)\<close> on a tool invocation
  request: the events it emits, and the \<^verbatim>\<open>tool_result\<close> it pushes, or what it throws.
\<close>

definition run_tool ::
  "env \<Rightarrow> js_string \<Rightarrow> js_string \<Rightarrow> tool_input \<Rightarrow> agent_event list \<times> (thrown + tool_result_block)"
where
  "run_tool env block_id name input =
     (if name = ascii ''search_wikipedia'' then
        (case searchWikipedia env (map_of input (ascii ''query'')) of
           Inl e \<Rightarrow> ([researcher_tool_call name input], Inl e)
         | Inr results \<Rightarrow>
             ([researcher_tool_call name input,
               researcher_tool_result name
                 (if results \<noteq> [] then join (ascii '', '') (map r_title results)
                  else no_results_preview)
                 (Some (length results))],
              Inr (ToolResult block_id
                     (if results \<noteq> [] then join [0x0A] (map bullet_line results)
                      else no_results))))
      else if name = ascii ''get_wikipedia_article'' then
        (case getWikipediaArticle env (map_of input (ascii ''title'')) of
           Inl e \<Rightarrow> ([researcher_tool_call name input], Inl e)
         | Inr result \<Rightarrow>
             ([researcher_tool_call name input,
               researcher_tool_result name
                 (if length result > 120 then take 120 result @ [ellipsis] else result)
                 None],
              Inr (ToolResult block_id result)))
      else
        ([researcher_tool_call name input,
          researcher_tool_result name unknown_tool None],
         Inr (ToolResult block_id unknown_tool)))"

text \<open>
  The \<^verbatim>\<open>for\<close> loop over \<^verbatim>\<open>toolUseBlocks\<close>: the events of all the passes and the
  collected \<^verbatim>\<open>toolResults\<close>. A throw ends it, with the events emitted until then. A
  block of another type is skipped (\<^verbatim>\<open>continue\<close>).
\<close>

fun dispatch :: "env \<Rightarrow> content_block list \<Rightarrow> agent_event list \<times> (thrown + tool_result_block list)" where
  "dispatch env [] = ([], Inr [])"
| "dispatch env (ToolUseBlock block_id name input # bs) =
     (case run_tool env block_id name input of
        (evs, Inl e) \<Rightarrow> (evs, Inl e)
      | (evs, Inr r) \<Rightarrow>
          (case dispatch env bs of
             (evs', Inl e) \<Rightarrow> (evs @ evs', Inl e)
           | (evs', Inr rs) \<Rightarrow> (evs @ evs', Inr (r # rs))))"
| "dispatch env (_ # bs) = dispatch env bs"

text \<open>The first \<^verbatim>\<open>for\<close> loop of an iteration: every text block that is not blank is emitted.\<close>

fun thinking :: "content_block list \<Rightarrow> agent_event list" where
  "thinking [] = []"
| "thinking (TextBlock t # bs) =
     (if trim t \<noteq> [] then researcher_thinking t # thinking bs else thinking bs)"
| "thinking (_ # bs) = thinking bs"

text \<open>\<^verbatim>\<open>content.find((b) => b.type === 'text')\<close>, then its text, or the empty string.\<close>

definition first_text :: "content_block list \<Rightarrow> js_string" where
  "first_text blocks = (case find is_text blocks of Some (TextBlock t) \<Rightarrow> t | _ \<Rightarrow> [])"

text \<open>
  What one iteration of \<^verbatim>\<open>while (continueLoop)\<close> does with the model's response: it goes
  on with a longer history, leaves the loop with the summary, or throws.
\<close>

datatype turn = Next "message_param list" | Done js_string | Raised thrown

definition research_turn ::
  "env \<Rightarrow> message_param list \<Rightarrow> message \<Rightarrow> agent_event list \<times> turn"
where
  "research_turn env researcherMessages researcherResponse =
     (if stop_reason researcherResponse = tool_use then
        (case dispatch env (filter is_tool_use (content researcherResponse)) of
           (evs, Inl e) \<Rightarrow> (thinking (content researcherResponse) @ evs, Raised e)
         | (evs, Inr toolResults) \<Rightarrow>
             (thinking (content researcherResponse) @ evs,
              Next (researcherMessages @
                    [MessageParam assistant (Blocks (content researcherResponse)),
                     MessageParam user (ToolResults toolResults)])))
      else
        (thinking (content researcherResponse) @ [researcher_done],
         Done (first_text (content researcherResponse))))"

text \<open>
  The source puts no bound on the loop. The model runs it for at most \<open>n\<close> iterations:
  \<open>Running msgs\<close> says that after \<open>n\<close> iterations the loop is still going and is about to
  call the model on the history \<open>msgs\<close>.
\<close>

datatype 'a outcome =
    is_Returns: Returns (returned: 'a)
  | is_Throws: Throws (exception: thrown)
  | is_Running: Running (history: "message_param list")

definition researcher_request :: "js_string \<Rightarrow> message_param list \<Rightarrow> request" where
  "researcher_request researcherModel researcherMessages =
     \<lparr>model = researcherModel, max_tokens = 2048, system = researcher_prompt,
      tools = RESEARCHER_TOOLS, messages = researcherMessages\<rparr>"

fun research_loop ::
  "nat \<Rightarrow> env \<Rightarrow> js_string \<Rightarrow> message_param list \<Rightarrow> agent_event list \<times> js_string outcome"
where
  "research_loop 0 env researcherModel msgs = ([], Running msgs)"
| "research_loop (Suc n) env researcherModel msgs =
     (case messages_create env (researcher_request researcherModel msgs) of
        Inl e \<Rightarrow> ([], Throws e)
      | Inr researcherResponse \<Rightarrow>
          (case research_turn env msgs researcherResponse of
             (evs, Raised e) \<Rightarrow> (evs, Throws e)
           | (evs, Done researchSummary) \<Rightarrow> (evs, Returns researchSummary)
           | (evs, Next msgs') \<Rightarrow>
               (case research_loop n env researcherModel msgs' of
                  (evs', out) \<Rightarrow> (evs @ evs', out))))"

section \<open>The pipeline\<close>

text \<open>The body of the request, as \<^verbatim>\<open>POST\<close> destructures it.\<close>

record research_request =
  question :: js_string
  supervisorModel :: js_string
  researcherModel :: js_string
  synthesizerModel :: js_string

text \<open>
  \<^verbatim>\<open>content[0].type === 'text' ? content[0].text : ''\<close>, as both the supervisor's and the
  synthesizer's responses are read. On an empty \<^verbatim>\<open>content\<close> the read of \<^verbatim>\<open>type\<close> on
  \<^verbatim>\<open>undefined\<close> throws a \<^verbatim>\<open>TypeError\<close>, with the message the runtime (V8) gives it.
\<close>

definition undefined_type_message :: js_string where
  "undefined_type_message =
     ascii ''Cannot read properties of undefined (reading '' @ [0x27] @ ascii ''type'' @ [0x27] @ ascii '')''"

definition first_block_text :: "content_block list \<Rightarrow> thrown + js_string" where
  "first_block_text blocks =
     (case blocks of
        [] \<Rightarrow> Inl (ErrorObj undefined_type_message)
      | TextBlock t # _ \<Rightarrow> Inr t
      | _ # _ \<Rightarrow> Inr [])"

text \<open>
  A read of \<^verbatim>\<open>plan.search_term\<close> or \<^verbatim>\<open>plan.response_format\<close> on what \<^verbatim>\<open>JSON.parse\<close>
  returned: it throws on \<^verbatim>\<open>null\<close>, finds the member on an object (the last one of that
  name), and is \<^verbatim>\<open>undefined\<close> on every other value.
\<close>

definition null_property_message :: "js_string \<Rightarrow> js_string" where
  "null_property_message key =
     ascii ''Cannot read properties of null (reading '' @ [0x27] @ key @ [0x27] @ ascii '')''"

definition own_member :: "json \<Rightarrow> js_string \<Rightarrow> js_value" where
  "own_member v key = (case v of JObj ms \<Rightarrow> map_of (rev ms) key | _ \<Rightarrow> None)"

definition read_property :: "json \<Rightarrow> js_string \<Rightarrow> thrown + js_value" where
  "read_property v key =
     (case v of
        JNull \<Rightarrow> Inl (ErrorObj (null_property_message key))
      | _ \<Rightarrow> Inr (own_member v key))"

text \<open>
  A value put into a template literal is converted to a string, and the conversion of
  a value that \<^verbatim>\<open>JSON.parse\<close> built can throw. An object is converted by its
  \<^verbatim>\<open>toString\<close>: when the object has a member of that name, it hides the inherited
  method and cannot be called, and neither \<^verbatim>\<open>toString\<close> nor \<^verbatim>\<open>valueOf\<close> gives a
  primitive value: a \<^verbatim>\<open>TypeError\<close>. An array is converted by joining the conversions
  of its elements (\<^verbatim>\<open>null\<close> gives the empty string), so it throws when one of them
  does. Every other value converts.
\<close>

fun conversion_throws :: "json \<Rightarrow> bool" where
  "conversion_throws (JObj ms) = (ascii ''toString'' \<in> set (map fst ms))"
| "conversion_throws (JArr vs) = list_ex conversion_throws vs"
| "conversion_throws v = False"

definition template_throws :: "js_value \<Rightarrow> bool" where
  "template_throws v = (case v of None \<Rightarrow> False | Some j \<Rightarrow> conversion_throws j)"

definition not_primitive_message :: js_string where
  "not_primitive_message = ascii ''Cannot convert object to primitive value''"

definition default_format :: js_string where
  "default_format = ascii ''Explicaci'' @ [0xF3] @ ascii ''n clara y estructurada''"

definition default_plan :: "js_string \<Rightarrow> json" where
  "default_plan q =
     JObj [(ascii ''search_term'', JStr q), (ascii ''response_format'', JStr default_format)]"

text \<open>
  The inner \<^verbatim>\<open>try\<close>: \<^verbatim>\<open>JSON.parse(raw.match(/\{[\s\S]*\}/)?.[0] ?? raw)\<close>, and the default
  plan when it throws.
\<close>

definition plan_text :: "js_string \<Rightarrow> js_string" where
  "plan_text raw = (case match_braces raw of Some m \<Rightarrow> m | None \<Rightarrow> raw)"

definition resolve_plan :: "js_string \<Rightarrow> js_string \<Rightarrow> json" where
  "resolve_plan q raw =
     (case JSON_parse (plan_text raw) of Some v \<Rightarrow> v | None \<Rightarrow> default_plan q)"

text \<open>The two members of the plan that the rest of the handler reads.\<close>

record plan =
  search_term :: js_value
  response_format :: js_value

definition supervisor_start_message :: js_string where
  "supervisor_start_message =
     ascii ''Recib'' @ [0xED] @ ascii '' la pregunta del usuario. Voy a determinar qu'' @ [0xE9] @
     ascii '' investigar y en qu'' @ [0xE9] @ ascii '' formato presentar la respuesta.''"

definition supervisor_review_message :: js_string where
  "supervisor_review_message =
     ascii ''Recib'' @ [0xED] @
     ascii '' los hallazgos del Researcher. Ahora le paso los datos al Synthesizer para que construya la respuesta final.''"

definition researcherInstruction :: "js_value \<Rightarrow> template" where
  "researcherInstruction topic =
     [Lit (ascii ''Busca informaci'' @ [0xF3] @ ascii ''n sobre: '' @ [0x22]),
      Sub topic,
      Lit ([0x22] @
           ascii ''. Usa las herramientas disponibles para encontrar datos precisos en Wikipedia. Devu'' @
           [0xE9] @ ascii ''lveme un resumen completo de lo que encuentres.'')]"

definition researcher_seed :: "js_value \<Rightarrow> message_param" where
  "researcher_seed topic =
     MessageParam user
       (Plain (researcherInstruction topic @
               [Lit ([0x0A, 0x0A] @ ascii ''Tema de investigaci'' @ [0xF3] @ ascii ''n: '' @ [0x22]),
                Sub topic,
                Lit [0x22]]))"

definition synthesizerInstruction :: "js_string \<Rightarrow> js_value \<Rightarrow> template" where
  "synthesizerInstruction q fmt =
     [Lit (ascii ''La pregunta del usuario es: '' @ [0x22]),
      Sub (Some (JStr q)),
      Lit ([0x22] @ ascii ''. El formato de respuesta deseado es: ''),
      Sub fmt,
      Lit (ascii ''. Te env'' @ [0xED] @ ascii ''o los datos de investigaci'' @ [0xF3] @
           ascii ''n para que los estructures en una respuesta clara.'')]"

definition supervisor_request :: "research_request \<Rightarrow> request" where
  "supervisor_request rq =
     \<lparr>model = supervisorModel rq, max_tokens = 512, system = supervisor_prompt,
      tools = [], messages = [MessageParam user (Plain [Lit (question rq)])]\<rparr>"

definition synthesizer_request :: "research_request \<Rightarrow> plan \<Rightarrow> js_string \<Rightarrow> request" where
  "synthesizer_request rq p researchSummary =
     \<lparr>model = synthesizerModel rq, max_tokens = 1500, system = synthesizer_prompt,
      tools = [],
      messages =
        [MessageParam user
           (Plain (synthesizerInstruction (question rq) (response_format p) @
                   [Lit ([0x0A, 0x0A] @ ascii ''Datos de investigaci'' @ [0xF3] @ ascii ''n:'' @ [0x0A]),
                    Sub (Some (JStr researchSummary))]))]\<rparr>"

text \<open>
  Phase 1 of the handler: the supervisor is asked for a plan, the plan is resolved, and
  the plan and the delegation to the researcher are emitted. The instruction of the
  delegation is built after the plan is emitted; it throws when the search term does
  not convert.
\<close>

definition planning :: "env \<Rightarrow> research_request \<Rightarrow> agent_event list \<times> (thrown + plan)" where
  "planning env rq =
     (case messages_create env (supervisor_request rq) of
        Inl e \<Rightarrow> ([supervisor_start supervisor_start_message], Inl e)
      | Inr supervisorResponse \<Rightarrow>
          (case first_block_text (content supervisorResponse) of
             Inl e \<Rightarrow> ([supervisor_start supervisor_start_message], Inl e)
           | Inr raw \<Rightarrow>
               (case read_property (resolve_plan (question rq) raw) (ascii ''search_term'') of
                  Inl e \<Rightarrow> ([supervisor_start supervisor_start_message], Inl e)
                | Inr topic \<Rightarrow>
                    (case read_property (resolve_plan (question rq) raw) (ascii ''response_format'') of
                       Inl e \<Rightarrow> ([supervisor_start supervisor_start_message], Inl e)
                     | Inr fmt \<Rightarrow>
                         if template_throws topic then
                           ([supervisor_start supervisor_start_message,
                             supervisor_plan topic fmt],
                            Inl (ErrorObj not_primitive_message))
                         else
                           ([supervisor_start supervisor_start_message,
                             supervisor_plan topic fmt,
                             supervisor_delegate researcher (researcherInstruction topic)],
                            Inr \<lparr>search_term = topic, response_format = fmt\<rparr>)))))"

text \<open>Phase 2: the researcher's loop, on a history seeded with one user turn.\<close>

definition research ::
  "nat \<Rightarrow> env \<Rightarrow> research_request \<Rightarrow> plan \<Rightarrow> agent_event list \<times> js_string outcome"
where
  "research n env rq p =
     (case research_loop n env (researcherModel rq) [researcher_seed (search_term p)] of
        (evs, out) \<Rightarrow> (researcher_start # evs, out))"

text \<open>
  Phases 3 to 5: the review, the delegation to the synthesizer, its answer, the end.
  The instruction of the delegation is built after the review is emitted; it throws
  when the response format does not convert.
\<close>

definition synthesis ::
  "env \<Rightarrow> research_request \<Rightarrow> plan \<Rightarrow> js_string \<Rightarrow> agent_event list \<times> (thrown + js_string)"
where
  "synthesis env rq p researchSummary =
     (if template_throws (response_format p) then
        ([supervisor_review supervisor_review_message], Inl (ErrorObj not_primitive_message))
      else
        (let announced =
               [supervisor_review supervisor_review_message,
                supervisor_delegate synthesizer
                  (synthesizerInstruction (question rq) (response_format p)),
                synthesizer_start]
         in case messages_create env (synthesizer_request rq p researchSummary) of
              Inl e \<Rightarrow> (announced, Inl e)
            | Inr synthesizerResponse \<Rightarrow>
                (case first_block_text (content synthesizerResponse) of
                   Inl e \<Rightarrow> (announced, Inl e)
                 | Inr finalAnswer \<Rightarrow>
                     (announced @ [synthesizer_done finalAnswer, supervisor_done],
                      Inr finalAnswer))))"

text \<open>The outer \<^verbatim>\<open>try\<close> block: the phases in order; a throw ends it where it happens.\<close>

definition pipeline ::
  "nat \<Rightarrow> env \<Rightarrow> research_request \<Rightarrow> agent_event list \<times> js_string outcome"
where
  "pipeline n env rq =
     (case planning env rq of
        (evs1, Inl e) \<Rightarrow> (evs1, Throws e)
      | (evs1, Inr p) \<Rightarrow>
          (case research n env rq p of
             (evs2, Throws e) \<Rightarrow> (evs1 @ evs2, Throws e)
           | (evs2, Running msgs) \<Rightarrow> (evs1 @ evs2, Running msgs)
           | (evs2, Returns researchSummary) \<Rightarrow>
               (case synthesis env rq p researchSummary of
                  (evs3, Inl e) \<Rightarrow> (evs1 @ evs2 @ evs3, Throws e)
                | (evs3, Inr finalAnswer) \<Rightarrow> (evs1 @ evs2 @ evs3, Returns finalAnswer))))"

text \<open>
  \<^verbatim>\<open>catch\<close> and \<^verbatim>\<open>finally\<close>: a throw becomes one \<^verbatim>\<open>error\<close> event, and the stream is
  closed. A run whose loop is still going has emitted its events so far and has not
  closed the stream.
\<close>

definition unknown_error :: js_string where
  "unknown_error = ascii ''Error desconocido''"

definition error_message :: "thrown \<Rightarrow> js_string" where
  "error_message err = (case err of ErrorObj m \<Rightarrow> m | NonError \<Rightarrow> unknown_error)"

record run =
  events :: "agent_event list"
  closed :: bool

definition POST :: "nat \<Rightarrow> env \<Rightarrow> research_request \<Rightarrow> run" where
  "POST n env rq =
     (case pipeline n env rq of
        (evs, Returns finalAnswer) \<Rightarrow> \<lparr>events = evs, closed = True\<rparr>
      | (evs, Throws err) \<Rightarrow> \<lparr>events = evs @ [error_event (error_message err)], closed = True\<rparr>
      | (evs, Running msgs) \<Rightarrow> \<lparr>events = evs, closed = False\<rparr>)"

section \<open>Notions used to state the properties\<close>

subsection \<open>Kinds of events and their order\<close>

datatype event_kind =
    planning_start | plan_produced | delegate agent | research_start
  | research_thinking | research_tool_call | research_tool_result | research_done
  | review | synthesis_start | synthesis_done | pipeline_done | error_kind

fun kind :: "agent_event \<Rightarrow> event_kind" where
  "kind (supervisor_start m) = planning_start"
| "kind (supervisor_plan t f) = plan_produced"
| "kind (supervisor_delegate a i) = delegate a"
| "kind (supervisor_review m) = review"
| "kind supervisor_done = pipeline_done"
| "kind researcher_start = research_start"
| "kind (researcher_thinking t) = research_thinking"
| "kind (researcher_tool_call t i) = research_tool_call"
| "kind (researcher_tool_result t p c) = research_tool_result"
| "kind researcher_done = research_done"
| "kind synthesizer_start = synthesis_start"
| "kind (synthesizer_done a) = synthesis_done"
| "kind (error_event m) = error_kind"

definition research_kinds :: "event_kind list" where
  "research_kinds = [research_thinking, research_tool_call, research_tool_result]"

definition opening_kinds :: "event_kind list" where
  "opening_kinds = [planning_start, plan_produced, delegate researcher, research_start]"

text \<open>
  \<open>exact_or_error expected ks\<close>: \<open>ks\<close> is the \<open>expected\<close> sequence, or a proper start of
  it cut short by one \<open>error\<close> after which nothing follows.
\<close>

fun exact_or_error :: "event_kind list \<Rightarrow> event_kind list \<Rightarrow> bool" where
  "exact_or_error [] ks = (ks = [])"
| "exact_or_error (e # es) ks =
     (ks = [error_kind] \<or> (case ks of [] \<Rightarrow> False | k # ks' \<Rightarrow> k = e \<and> exact_or_error es ks'))"

text \<open>
  \<open>in_order closing ks\<close>: the opening four events, any number of events of the research
  loop, then the \<open>closing\<close> events, with an \<open>error\<close> able to end the sequence anywhere.
\<close>

definition in_order :: "event_kind list \<Rightarrow> event_kind list \<Rightarrow> bool" where
  "in_order closing ks =
     (if take (length opening_kinds) ks = opening_kinds
      then exact_or_error closing
             (dropWhile (\<lambda>k. k \<in> set research_kinds) (drop (length opening_kinds) ks))
      else exact_or_error opening_kinds ks)"

text \<open>The order as the specification lists it, and the order with the review event in it.\<close>

definition claimed_order :: "event_kind list \<Rightarrow> bool" where
  "claimed_order =
     in_order [research_done, delegate synthesizer, synthesis_start, synthesis_done, pipeline_done]"

definition closing_kinds :: "event_kind list" where
  "closing_kinds =
     [research_done, review, delegate synthesizer, synthesis_start, synthesis_done, pipeline_done]"

definition emitted_order :: "event_kind list \<Rightarrow> bool" where
  "emitted_order = in_order closing_kinds"

subsection \<open>Histories\<close>

fun alternates :: "msg_role list \<Rightarrow> bool" where
  "alternates [] = True"
| "alternates [x] = True"
| "alternates (x # y # ys) = (x \<noteq> y \<and> alternates (y # ys))"

subsection \<open>Requests that the knowledge source answers\<close>

text \<open>
  The source answers a request when the request is not rejected and, if the response is
  \<^verbatim>\<open>ok\<close>, its body decodes. The status of the response is free. A tool invocation
  request is answered when its argument can be put into the URL and the source answers
  the request made with it; a request for a tool that does not exist needs no answer.
\<close>

fun answers :: "'a fetch_result \<Rightarrow> bool" where
  "answers (Rejects e) = False"
| "answers (Responds ok res) = (if ok then (case res of Inl e \<Rightarrow> False | Inr d \<Rightarrow> True) else True)"

definition search_answered :: "env \<Rightarrow> js_string option \<Rightarrow> bool" where
  "search_answered env query =
     (case encodeURIComponent (to_string query) of
        Inl e \<Rightarrow> False
      | Inr q \<Rightarrow> answers (fetch_search env q 5))"

definition article_answered :: "env \<Rightarrow> js_string option \<Rightarrow> bool" where
  "article_answered env title =
     (case encodeURIComponent (to_string title) of
        Inl e \<Rightarrow> False
      | Inr t \<Rightarrow> answers (fetch_summary env t))"

definition request_answered :: "env \<Rightarrow> content_block \<Rightarrow> bool" where
  "request_answered env b =
     (if use_name b = ascii ''search_wikipedia''
      then search_answered env (map_of (use_input b) (ascii ''query''))
      else if use_name b = ascii ''get_wikipedia_article''
      then article_answered env (map_of (use_input b) (ascii ''title''))
      else True)"

text \<open>A knowledge source that returns no more pages than the limit it is asked with.\<close>

definition honours_limit :: "env \<Rightarrow> bool" where
  "honours_limit env \<longleftrightarrow>
     (\<forall>q n ok d ps. fetch_search env q n = Responds ok (Inr d) \<and> pages d = Some ps \<longrightarrow> length ps \<le> n)"

subsection \<open>The result of a tool invocation and what is shown of it\<close>

text \<open>
  For a tool invocation request: the result string of its execution (the value of
  \<^verbatim>\<open>result\<close> in the handler), and the research-tool-result event of its execution.
\<close>

definition full_result :: "env \<Rightarrow> content_block \<Rightarrow> thrown + js_string" where
  "full_result env b =
     (if use_name b = ascii ''search_wikipedia'' then
        (case searchWikipedia env (map_of (use_input b) (ascii ''query'')) of
           Inl e \<Rightarrow> Inl e
         | Inr results \<Rightarrow>
             Inr (if results \<noteq> [] then join [0x0A] (map bullet_line results) else no_results))
      else if use_name b = ascii ''get_wikipedia_article'' then
        getWikipediaArticle env (map_of (use_input b) (ascii ''title''))
      else Inr unknown_tool)"

definition shown_result :: "env \<Rightarrow> content_block \<Rightarrow> thrown + agent_event" where
  "shown_result env b =
     (if use_name b = ascii ''search_wikipedia'' then
        (case searchWikipedia env (map_of (use_input b) (ascii ''query'')) of
           Inl e \<Rightarrow> Inl e
         | Inr results \<Rightarrow>
             Inr (researcher_tool_result (use_name b)
                    (if results \<noteq> [] then join (ascii '', '') (map r_title results)
                     else no_results_preview)
                    (Some (length results))))
      else if use_name b = ascii ''get_wikipedia_article'' then
        (case getWikipediaArticle env (map_of (use_input b) (ascii ''title'')) of
           Inl e \<Rightarrow> Inl e
         | Inr result \<Rightarrow>
             Inr (researcher_tool_result (use_name b)
                    (if 120 < length result then take 120 result @ [ellipsis] else result)
                    None))
      else Inr (researcher_tool_result (use_name b) unknown_tool None))"

subsection \<open>Planner outputs the specification calls malformed\<close>

text \<open>
  In the specification's words: text that is not JSON (the empty string is such a text),
  or JSON without a \<^verbatim>\<open>search_term\<close> or without a \<^verbatim>\<open>response_format\<close>.
\<close>

definition has_member :: "json \<Rightarrow> js_string \<Rightarrow> bool" where
  "has_member v key = (case v of JObj ms \<Rightarrow> map_of ms key \<noteq> None | _ \<Rightarrow> False)"

definition malformed_planner_output :: "js_string \<Rightarrow> bool" where
  "malformed_planner_output raw =
     (case JSON_parse raw of
        None \<Rightarrow> True
      | Some v \<Rightarrow> \<not> (has_member v (ascii ''search_term'') \<and> has_member v (ascii ''response_format'')))"

subsection \<open>The fallback plan\<close>

text \<open>The plan the handler falls back to, as the later phases read it.\<close>

definition fallback_plan :: "research_request \<Rightarrow> plan" where
  "fallback_plan rq =
     \<lparr>search_term = Some (JStr (question rq)), response_format = Some (JStr default_format)\<rparr>"

section \<open>Example runs\<close>

text \<open>
  An environment given by its replies: the supervisor's, the researcher's one per
  iteration (the iteration is read off the length of the history; past the list the
  researcher ends its turn with a closing text), the synthesizer's, and the two
  endpoints of the knowledge source.
\<close>

definition closing_reply :: "thrown + message" where
  "closing_reply = Inr \<lparr>content = [TextBlock (ascii ''X is ...'')], stop_reason = end_turn\<rparr>"

definition scripted_env ::
  "(thrown + message) \<Rightarrow> (thrown + message) list \<Rightarrow> (thrown + message) \<Rightarrow>
   (js_string \<Rightarrow> nat \<Rightarrow> search_data fetch_result) \<Rightarrow> (js_string \<Rightarrow> summary_data fetch_result) \<Rightarrow> env"
where
  "scripted_env planner turns synth search summary =
     \<lparr>messages_create =
        (\<lambda>r. case system r of
                supervisor_prompt \<Rightarrow> planner
              | researcher_prompt \<Rightarrow>
                  (if length (messages r) div 2 < length turns
                   then turns ! (length (messages r) div 2)
                   else closing_reply)
              | synthesizer_prompt \<Rightarrow> synth),
      fetch_search = search,
      fetch_summary = summary\<rparr>"

definition text_reply :: "js_string \<Rightarrow> thrown + message" where
  "text_reply t = Inr \<lparr>content = [TextBlock t], stop_reason = end_turn\<rparr>"

definition tool_reply :: "content_block list \<Rightarrow> thrown + message" where
  "tool_reply blocks = Inr \<lparr>content = blocks, stop_reason = tool_use\<rparr>"

definition plan_json :: js_string where
  \<open>plan_json = ascii ''{"search_term":"X","response_format":"short summary"}''\<close>

definition search_call :: content_block where
  "search_call = ToolUseBlock (ascii ''t1'') (ascii ''search_wikipedia'') [(ascii ''query'', ascii ''X'')]"

definition article_call :: content_block where
  "article_call = ToolUseBlock (ascii ''t2'') (ascii ''get_wikipedia_article'') [(ascii ''title'', ascii ''X'')]"

definition one_page :: "js_string \<Rightarrow> nat \<Rightarrow> search_data fetch_result" where
  "one_page q n =
     Responds True (Inr \<lparr>pages = Some (take n [Page (ascii ''X'') (Some (ascii ''the <b>letter</b> X''))])\<rparr>)"

definition summary_of_X :: "js_string \<Rightarrow> summary_data fetch_result" where
  "summary_of_X t =
     (if t = ascii ''X'' then Responds True (Inr \<lparr>summary_extract = Some (ascii ''X is a letter.'')\<rparr>)
      else Responds False (Inl NonError))"

definition ask_X :: research_request where
  "ask_X = \<lparr>question = ascii ''What is X?'', supervisorModel = ascii ''opus'',
            researcherModel = ascii ''sonnet'', synthesizerModel = ascii ''haiku''\<rparr>"

text \<open>
  The scenario of the specification: a plan in JSON, one search, one article, a closing
  text, and a synthesized answer.
\<close>

definition scenario :: env where
  "scenario =
     scripted_env (text_reply plan_json)
       [tool_reply [TextBlock (ascii ''Let me search.''), search_call], tool_reply [article_call]]
       (text_reply (ascii ''# X''))
       one_page summary_of_X"

text \<open>A response that asks for three tool invocations at once.\<close>

definition two_calls :: message where
  "two_calls = \<lparr>content = [TextBlock (ascii ''Two lookups.''), search_call, article_call,
                            ToolUseBlock (ascii ''t3'') (ascii ''get_wikipedia_article'') [(ascii ''title'', ascii ''Y'')]],
                 stop_reason = tool_use\<rparr>"

text \<open>A run in which the call to the synthesizer fails.\<close>

definition synthesizer_down :: env where
  "synthesizer_down =
     scripted_env (text_reply plan_json) [] (Inl (ErrorObj (ascii ''Overloaded''))) one_page summary_of_X"

text \<open>A run in which the researcher needs no tool, and the history it starts from.\<close>

definition answers_at_once :: env where
  "answers_at_once = scripted_env (text_reply plan_json) [] (text_reply (ascii ''# X'')) one_page summary_of_X"

definition seed_X :: message_param where
  "seed_X = researcher_seed (Some (JStr (ascii ''X'')))"

text \<open>
  A run in which the researcher's response is cut at the token limit and holds a tool
  invocation request.
\<close>

definition cut_short :: env where
  "cut_short =
     scripted_env (text_reply plan_json)
       [Inr \<lparr>content = [search_call], stop_reason = max_tokens_reached\<rparr>]
       (text_reply (ascii ''# X'')) one_page summary_of_X"

text \<open>A run in which the synthesizer's response starts with a block that is not text.\<close>

definition preamble_first :: env where
  "preamble_first =
     scripted_env (text_reply plan_json) []
       (Inr \<lparr>content = [OtherBlock, TextBlock (ascii ''# X'')], stop_reason = end_turn\<rparr>)
       one_page summary_of_X"

text \<open>
  Knowledge sources for the examples: one that answers every request with a failure
  status, one that finds nothing, one whose requests are rejected, one that returns six
  pages whatever the limit, and one whose only page has a title of 130 code units.
\<close>

definition source_unavailable :: env where
  "source_unavailable =
     scripted_env (text_reply plan_json) [tool_reply [search_call], tool_reply [article_call]]
       (text_reply (ascii ''# X''))
       (\<lambda>q n. Responds False (Inl NonError)) (\<lambda>t. Responds False (Inl NonError))"

definition nothing_found :: env where
  "nothing_found =
     scripted_env (text_reply plan_json) [tool_reply [search_call]] (text_reply (ascii ''# X''))
       (\<lambda>q n. Responds True (Inr \<lparr>pages = Some []\<rparr>)) summary_of_X"

definition fetch_failed :: thrown where
  "fetch_failed = ErrorObj (ascii ''fetch failed'')"

definition network_down :: env where
  "network_down =
     scripted_env (text_reply plan_json) [tool_reply [search_call]] (text_reply (ascii ''# X''))
       (\<lambda>q n. Rejects fetch_failed) (\<lambda>t. Rejects fetch_failed)"

definition six_pages :: env where
  "six_pages =
     scripted_env (text_reply plan_json) [tool_reply [search_call]] (text_reply (ascii ''# X''))
       (\<lambda>q n. Responds True (Inr \<lparr>pages = Some (replicate 6 (Page (ascii ''X'') None))\<rparr>))
       summary_of_X"

definition long_title :: env where
  "long_title =
     scripted_env (text_reply plan_json) [tool_reply [search_call]] (text_reply (ascii ''# X''))
       (\<lambda>q n. Responds True (Inr \<lparr>pages = Some [Page (replicate 130 0x61) None]\<rparr>))
       summary_of_X"

text \<open>A knowledge source whose article is 200 code units long.\<close>

definition long_article :: env where
  "long_article =
     scripted_env (text_reply plan_json) [tool_reply [article_call]] (text_reply (ascii ''# X''))
       one_page (\<lambda>t. Responds True (Inr \<lparr>summary_extract = Some (replicate 200 0x61)\<rparr>))"

text \<open>
  A run in which the planner answers in prose, and one in which it answers with the
  empty JSON object.
\<close>

definition prose_planner :: env where
  "prose_planner =
     scripted_env (text_reply (ascii ''I would look up the letter X.'')) []
       (text_reply (ascii ''# X'')) one_page summary_of_X"

definition empty_object_planner :: env where
  "empty_object_planner =
     scripted_env (text_reply (ascii ''{}'')) [] (text_reply (ascii ''# X'')) one_page summary_of_X"

text \<open>
  A knowledge source whose search answers and whose article request is rejected, one
  whose bodies do not decode, and a string that is a surrogate without its partner.
\<close>

definition summary_rejected :: env where
  "summary_rejected =
     scripted_env (text_reply plan_json) [tool_reply [search_call, article_call]]
       (text_reply (ascii ''# X'')) one_page (\<lambda>t. Rejects fetch_failed)"

definition unexpected_token :: thrown where
  "unexpected_token = ErrorObj (ascii ''Unexpected token < in JSON at position 0'')"

definition undecodable :: env where
  "undecodable =
     scripted_env (text_reply plan_json) [tool_reply [search_call]] (text_reply (ascii ''# X''))
       (\<lambda>q n. Responds True (Inl unexpected_token)) (\<lambda>t. Responds True (Inl unexpected_token))"

definition lone_surrogate :: js_string where
  "lone_surrogate = [0xD800]"

text \<open>A response that asks for two articles, and one that asks for a search and an article.\<close>

definition two_articles :: message where
  "two_articles =
     \<lparr>content = [article_call,
                 ToolUseBlock (ascii ''t3'') (ascii ''get_wikipedia_article'') [(ascii ''title'', ascii ''Y'')]],
      stop_reason = tool_use\<rparr>"

definition search_then_article :: message where
  "search_then_article = \<lparr>content = [search_call, article_call], stop_reason = tool_use\<rparr>"

text \<open>
  A run in which the planner's JSON gives a response format that does not convert to a
  string, and the plan read from it.
\<close>

definition odd_format_json :: js_string where
  \<open>odd_format_json = ascii ''{"search_term":"X","response_format":{"toString":1}}''\<close>

definition odd_format :: env where
  "odd_format =
     scripted_env (text_reply odd_format_json) [] (text_reply (ascii ''# X'')) one_page summary_of_X"

definition plan_X :: plan where
  "plan_X =
     \<lparr>search_term = Some (JStr (ascii ''X'')),
      response_format = Some (JStr (ascii ''short summary''))\<rparr>"

text \<open>
  A run in which the planner answers with the JSON text \<^verbatim>\<open>null\<close>, and one in which the
  synthesizer's response has no block.
\<close>

definition null_planner :: env where
  "null_planner =
     scripted_env (text_reply (ascii ''null'')) [] (text_reply (ascii ''# X'')) one_page summary_of_X"

definition no_blocks :: env where
  "no_blocks =
     scripted_env (text_reply plan_json) [] (Inr \<lparr>content = [], stop_reason = end_turn\<rparr>)
       one_page summary_of_X"

definition plan_odd :: plan where
  "plan_odd =
     \<lparr>search_term = Some (JStr (ascii ''X'')),
      response_format = Some (JObj [(ascii ''toString'', JNum (ascii ''1''))])\<rparr>"

section \<open>Auxiliary facts about the tool loop\<close>

lemma dispatch_ids:
  "dispatch env bs = (evs, Inr rs) \<Longrightarrow> map tool_use_id rs = map use_id (filter is_tool_use bs)"
  by (induction env bs arbitrary: evs rs rule: dispatch.induct)
     (auto simp: run_tool_def split: prod.splits sum.splits if_splits)

lemma searchWikipedia_returns:
  "search_answered env q \<Longrightarrow> \<exists>rs. searchWikipedia env q = Inr rs"
  by (auto simp: searchWikipedia_def search_answered_def
      split: sum.splits fetch_result.splits if_splits)

lemma searchWikipedia_throws:
  "\<not> search_answered env q \<Longrightarrow> \<exists>e. searchWikipedia env q = Inl e"
  by (auto simp: searchWikipedia_def search_answered_def
      split: sum.splits fetch_result.splits if_splits)

lemma getWikipediaArticle_returns:
  "article_answered env t \<Longrightarrow> \<exists>s. getWikipediaArticle env t = Inr s"
  by (auto simp: getWikipediaArticle_def article_answered_def
      split: sum.splits fetch_result.splits if_splits)

lemma getWikipediaArticle_throws:
  "\<not> article_answered env t \<Longrightarrow> \<exists>e. getWikipediaArticle env t = Inl e"
  by (auto simp: getWikipediaArticle_def article_answered_def
      split: sum.splits fetch_result.splits if_splits)

lemma tool_names_differ: "ascii ''get_wikipedia_article'' \<noteq> ascii ''search_wikipedia''"
  by (simp add: ascii_def)

lemma run_tool_returns:
  assumes "request_answered env (ToolUseBlock i name input)"
  shows "\<exists>evs s. run_tool env i name input = (evs, Inr (ToolResult i s))"
proof -
  consider (search) "name = ascii ''search_wikipedia''"
    | (article) "name = ascii ''get_wikipedia_article''"
    | (other) "name \<noteq> ascii ''search_wikipedia''" "name \<noteq> ascii ''get_wikipedia_article''"
    by blast
  then show ?thesis
  proof cases
    case search
    with assms have "search_answered env (map_of input (ascii ''query''))"
      by (simp add: request_answered_def)
    from searchWikipedia_returns [OF this] search show ?thesis
      by (auto simp: run_tool_def)
  next
    case article
    with assms tool_names_differ have "article_answered env (map_of input (ascii ''title''))"
      by (simp add: request_answered_def)
    from getWikipediaArticle_returns [OF this] article tool_names_differ show ?thesis
      by (auto simp: run_tool_def)
  next
    case other
    then show ?thesis
      by (simp add: run_tool_def)
  qed
qed

lemma run_tool_throws:
  assumes "\<not> request_answered env (ToolUseBlock i name input)"
  shows "\<exists>e. run_tool env i name input = ([researcher_tool_call name input], Inl e)"
proof -
  consider (search) "name = ascii ''search_wikipedia''"
    | (article) "name = ascii ''get_wikipedia_article''"
    | (other) "name \<noteq> ascii ''search_wikipedia''" "name \<noteq> ascii ''get_wikipedia_article''"
    by blast
  then show ?thesis
  proof cases
    case search
    with assms have "\<not> search_answered env (map_of input (ascii ''query''))"
      by (simp add: request_answered_def)
    from searchWikipedia_throws [OF this] search show ?thesis
      by (auto simp: run_tool_def)
  next
    case article
    with assms tool_names_differ have "\<not> article_answered env (map_of input (ascii ''title''))"
      by (simp add: request_answered_def)
    from getWikipediaArticle_throws [OF this] article tool_names_differ show ?thesis
      by (auto simp: run_tool_def)
  next
    case other
    with assms show ?thesis
      by (simp add: request_answered_def)
  qed
qed

lemma dispatch_returns:
  "list_all (request_answered env) (filter is_tool_use bs) \<Longrightarrow> \<exists>evs rs. dispatch env bs = (evs, Inr rs)"
proof (induction bs)
  case Nil
  show ?case by simp
next
  case (Cons b bs)
  show ?case
  proof (cases b)
    case (ToolUseBlock i name input)
    with Cons.prems have a: "request_answered env (ToolUseBlock i name input)"
      and r: "list_all (request_answered env) (filter is_tool_use bs)"
      by simp_all
    from Cons.IH [OF r] obtain evs rs where d: "dispatch env bs = (evs, Inr rs)" by blast
    from run_tool_returns [OF a] obtain evs' s
      where "run_tool env i name input = (evs', Inr (ToolResult i s))" by blast
    with d ToolUseBlock show ?thesis by simp
  next
    case (TextBlock t)
    with Cons show ?thesis by simp
  next
    case OtherBlock
    with Cons show ?thesis by simp
  qed
qed

lemma dispatch_throws:
  "\<not> list_all (request_answered env) (filter is_tool_use bs) \<Longrightarrow> \<exists>evs e. dispatch env bs = (evs, Inl e)"
proof (induction bs)
  case Nil
  then show ?case by simp
next
  case (Cons b bs)
  show ?case
  proof (cases b)
    case (ToolUseBlock i name input)
    show ?thesis
    proof (cases "request_answered env (ToolUseBlock i name input)")
      case True
      with Cons.prems ToolUseBlock have "\<not> list_all (request_answered env) (filter is_tool_use bs)"
        by simp
      from Cons.IH [OF this] obtain evs e where d: "dispatch env bs = (evs, Inl e)" by blast
      from run_tool_returns [OF True] obtain evs' s
        where "run_tool env i name input = (evs', Inr (ToolResult i s))" by blast
      with d ToolUseBlock show ?thesis by simp
    next
      case False
      from run_tool_throws [OF this] ToolUseBlock show ?thesis by auto
    qed
  next
    case (TextBlock t)
    with Cons show ?thesis by simp
  next
    case OtherBlock
    with Cons show ?thesis by simp
  qed
qed

text \<open>What a tool invocation that returns has stored and shown.\<close>

lemma run_tool_full:
  assumes "run_tool env i name input = (evs, Inr tr)"
  shows "\<exists>s ev. tr = ToolResult i s \<and>
           full_result env (ToolUseBlock i name input) = Inr s \<and>
           shown_result env (ToolUseBlock i name input) = Inr ev \<and>
           kind ev = research_tool_result \<and>
           evs = [researcher_tool_call name input, ev]"
proof -
  consider (search) "name = ascii ''search_wikipedia''"
    | (article) "name = ascii ''get_wikipedia_article''"
    | (other) "name \<noteq> ascii ''search_wikipedia''" "name \<noteq> ascii ''get_wikipedia_article''"
    by blast
  then show ?thesis
  proof cases
    case search
    from assms search obtain results where
      sw: "searchWikipedia env (map_of input (ascii ''query'')) = Inr results"
      by (cases "searchWikipedia env (map_of input (ascii ''query''))") (simp_all add: run_tool_def)
    with assms search show ?thesis
      by (auto simp: run_tool_def full_result_def shown_result_def)
  next
    case article
    from assms article tool_names_differ obtain result where
      ga: "getWikipediaArticle env (map_of input (ascii ''title'')) = Inr result"
      by (cases "getWikipediaArticle env (map_of input (ascii ''title''))") (simp_all add: run_tool_def)
    with assms article tool_names_differ show ?thesis
      by (auto simp: run_tool_def full_result_def shown_result_def)
  next
    case other
    with assms show ?thesis
      by (auto simp: run_tool_def full_result_def shown_result_def)
  qed
qed

lemma dispatch_full:
  "dispatch env bs = (evs, Inr rs) \<Longrightarrow>
   map (\<lambda>t. Inr (result_content t)) rs = map (full_result env) (filter is_tool_use bs) \<and>
   map Inr (filter (\<lambda>e. kind e = research_tool_result) evs) =
     map (shown_result env) (filter is_tool_use bs) \<and>
   filter (\<lambda>e. kind e = research_tool_call) evs =
     map (\<lambda>b. researcher_tool_call (use_name b) (use_input b)) (filter is_tool_use bs)"
proof (induction bs arbitrary: evs rs)
  case Nil
  then show ?case by simp
next
  case (Cons b bs)
  show ?case
  proof (cases b)
    case (ToolUseBlock i name input)
    obtain e1 x1 where rt: "run_tool env i name input = (e1, x1)"
      by (cases "run_tool env i name input")
    obtain e2 x2 where d: "dispatch env bs = (e2, x2)"
      by (cases "dispatch env bs")
    from Cons.prems ToolUseBlock rt d obtain tr rs' where
      x: "x1 = Inr tr" "x2 = Inr rs'" and eq: "evs = e1 @ e2" "rs = tr # rs'"
      by (cases x1; cases x2) auto
    from run_tool_full [OF rt [unfolded x(1)]] obtain s ev where
      f: "tr = ToolResult i s" "full_result env (ToolUseBlock i name input) = Inr s"
        "shown_result env (ToolUseBlock i name input) = Inr ev" "kind ev = research_tool_result"
        "e1 = [researcher_tool_call name input, ev]"
      by blast
    from Cons.IH [OF d [unfolded x(2)]] f eq ToolUseBlock show ?thesis
      by simp
  next
    case (TextBlock t)
    with Cons show ?thesis by simp
  next
    case OtherBlock
    with Cons show ?thesis by simp
  qed
qed

lemma research_turn_next:
  assumes "research_turn env msgs r = (evs, Next msgs')"
  shows "stop_reason r = tool_use \<and> (\<exists>results evs'.
           dispatch env (filter is_tool_use (content r)) = (evs', Inr results) \<and>
           msgs' = msgs @ [MessageParam assistant (Blocks (content r)),
                           MessageParam user (ToolResults results)])"
  using assms by (auto simp: research_turn_def split: if_splits prod.splits sum.splits)

lemma concat_replicate_snoc:
  "concat (replicate k xs) @ xs = xs @ concat (replicate k xs)"
  by (induction k) simp_all

lemma research_loop_running_roles:
  "research_loop k env m msgs = (evs, Running msgs') \<Longrightarrow>
   map role msgs' = map role msgs @ concat (replicate k [assistant, user])"
proof (induction k arbitrary: msgs evs)
  case 0
  then show ?case by simp
next
  case (Suc k)
  from Suc.prems obtain r e1 mid e2 where
    r: "messages_create env (researcher_request m msgs) = Inr r" and
    t: "research_turn env msgs r = (e1, Next mid)" and
    l: "research_loop k env m mid = (e2, Running msgs')"
    by (auto split: sum.splits prod.splits turn.splits)
  from research_turn_next [OF t] obtain results where
    mid: "mid = msgs @ [MessageParam assistant (Blocks (content r)), MessageParam user (ToolResults results)]"
    by blast
  from Suc.IH [OF l] mid show ?case
    by (simp add: concat_replicate_snoc [of k "[assistant, user]", simplified])
qed

lemma alternates_user_first: "alternates (user # concat (replicate k [assistant, user]))"
  by (induction k) simp_all

lemma last_user_first: "last (user # concat (replicate k [assistant, user])) = user"
  by (induction k) simp_all

lemma pipeline_running:
  assumes "pipeline n env rq = (evs, Running msgs)"
  shows "\<exists>(p :: plan) evs'.
           research_loop n env (researcherModel rq) [researcher_seed (search_term p)] = (evs', Running msgs)"
  using assms
  by (auto simp: pipeline_def research_def split: prod.splits sum.splits outcome.splits)

section \<open>Kinds of the events of each phase\<close>

lemma thinking_kinds: "set (map kind (thinking bs)) \<subseteq> set research_kinds"
  by (induction bs rule: thinking.induct) (auto simp: research_kinds_def)

lemma thinking_no_results:
  "filter (\<lambda>e. kind e = research_tool_result) (thinking bs) = []"
  by (induction bs rule: thinking.induct) simp_all

lemma run_tool_kinds:
  "run_tool env i name input = (evs, x) \<Longrightarrow> set (map kind evs) \<subseteq> set research_kinds"
  by (auto simp: run_tool_def research_kinds_def split: if_splits sum.splits)

lemma dispatch_kinds:
  "dispatch env bs = (evs, x) \<Longrightarrow> set (map kind evs) \<subseteq> set research_kinds"
proof (induction env bs arbitrary: evs x rule: dispatch.induct)
  case (2 env i name input bs)
  obtain e1 x1 where rt: "run_tool env i name input = (e1, x1)"
    by (cases "run_tool env i name input")
  obtain e2 x2 where d: "dispatch env bs = (e2, x2)"
    by (cases "dispatch env bs")
  from run_tool_kinds [OF rt] have k1: "set (map kind e1) \<subseteq> set research_kinds" .
  show ?case
  proof (cases x1)
    case (Inl e)
    with "2.prems" rt have "evs = e1" by simp
    with k1 show ?thesis by simp
  next
    case (Inr r)
    from "2.IH" [OF rt [symmetric] Inr d] have k2: "set (map kind e2) \<subseteq> set research_kinds" .
    from "2.prems" rt d Inr have "evs = e1 @ e2"
      by (cases x2) auto
    with k1 k2 show ?thesis by simp
  qed
qed simp_all

lemma research_turn_kinds:
  assumes "research_turn env msgs r = (evs, t)"
  shows "case t of
           Done s \<Rightarrow> \<exists>mid. map kind evs = mid @ [research_done] \<and> set mid \<subseteq> set research_kinds
         | _ \<Rightarrow> set (map kind evs) \<subseteq> set research_kinds"
proof (cases "stop_reason r = tool_use")
  case True
  obtain e x where d: "dispatch env (filter is_tool_use (content r)) = (e, x)"
    by (cases "dispatch env (filter is_tool_use (content r))")
  from dispatch_kinds [OF d] thinking_kinds [of "content r"] assms True d
  show ?thesis
    by (auto simp: research_turn_def split: sum.splits)
next
  case False
  with assms thinking_kinds [of "content r"] show ?thesis
    by (auto simp: research_turn_def)
qed

lemma research_loop_kinds:
  "research_loop n env m msgs = (evs, out) \<Longrightarrow>
   (case out of
      Returns s \<Rightarrow> \<exists>mid. map kind evs = mid @ [research_done] \<and> set mid \<subseteq> set research_kinds
    | _ \<Rightarrow> set (map kind evs) \<subseteq> set research_kinds)"
proof (induction n arbitrary: msgs evs out)
  case 0
  then show ?case by auto
next
  case (Suc n)
  show ?case
  proof (cases "messages_create env (researcher_request m msgs)")
    case (Inl e)
    with Suc.prems show ?thesis by auto
  next
    case (Inr r)
    obtain e1 t where t: "research_turn env msgs r = (e1, t)"
      by (cases "research_turn env msgs r")
    note k1 = research_turn_kinds [OF t]
    show ?thesis
    proof (cases t)
      case (Next msgs')
      obtain e2 o2 where l: "research_loop n env m msgs' = (e2, o2)"
        by (cases "research_loop n env m msgs'")
      from Suc.prems Inr t Next l have eq: "evs = e1 @ e2" "out = o2" by auto
      from k1 Next have s1: "set (map kind e1) \<subseteq> set research_kinds" by simp
      show ?thesis
      proof (cases o2)
        case (Returns s)
        with Suc.IH [OF l] obtain mid where
          "map kind e2 = mid @ [research_done]" "set mid \<subseteq> set research_kinds" by auto
        with s1 have "map kind (e1 @ e2) = (map kind e1 @ mid) @ [research_done] \<and>
                      set (map kind e1 @ mid) \<subseteq> set research_kinds"
          by simp
        with Returns eq show ?thesis
          by (simp del: append_assoc map_append)
      next
        case (Throws e)
        with Suc.IH [OF l] s1 eq show ?thesis by simp
      next
        case (Running h)
        with Suc.IH [OF l] s1 eq show ?thesis by simp
      qed
    next
      case (Done s)
      with Suc.prems Inr t k1 show ?thesis by auto
    next
      case (Raised e)
      with Suc.prems Inr t k1 show ?thesis by auto
    qed
  qed
qed

lemma planning_kinds:
  "planning env rq = (evs, x) \<Longrightarrow>
   (case x of
      Inl e \<Rightarrow> map kind evs = [planning_start] \<or> map kind evs = [planning_start, plan_produced]
    | Inr p \<Rightarrow> map kind evs = [planning_start, plan_produced, delegate researcher])"
  by (auto simp: planning_def split: sum.splits if_splits)

lemma synthesis_kinds:
  "synthesis env rq p s = (evs, x) \<Longrightarrow>
   (case x of
      Inl e \<Rightarrow> map kind evs = [review] \<or>
               map kind evs = [review, delegate synthesizer, synthesis_start]
    | Inr a \<Rightarrow> map kind evs =
               [review, delegate synthesizer, synthesis_start, synthesis_done, pipeline_done])"
  by (auto simp: synthesis_def Let_def split: sum.splits if_splits)

text \<open>The shape of the events of the \<^verbatim>\<open>try\<close> block, by how it ends.\<close>

lemma pipeline_kinds:
  assumes "pipeline n env rq = (evs, out)"
  shows "case out of
           Returns a \<Rightarrow> \<exists>mid. set mid \<subseteq> set research_kinds \<and>
              map kind evs = opening_kinds @ mid @
                [research_done, review, delegate synthesizer, synthesis_start, synthesis_done, pipeline_done]
         | Running h \<Rightarrow> \<exists>mid. set mid \<subseteq> set research_kinds \<and> map kind evs = opening_kinds @ mid
         | Throws e \<Rightarrow>
             map kind evs = [planning_start] \<or>
             map kind evs = [planning_start, plan_produced] \<or>
             (\<exists>mid. set mid \<subseteq> set research_kinds \<and> map kind evs = opening_kinds @ mid) \<or>
             (\<exists>mid. set mid \<subseteq> set research_kinds \<and>
                map kind evs = opening_kinds @ mid @ [research_done, review]) \<or>
             (\<exists>mid. set mid \<subseteq> set research_kinds \<and>
                map kind evs = opening_kinds @ mid @ [research_done, review, delegate synthesizer, synthesis_start])"
proof -
  obtain e1 x1 where pl: "planning env rq = (e1, x1)"
    by (cases "planning env rq")
  note k1 = planning_kinds [OF pl]
  show ?thesis
  proof (cases x1)
    case (Inl e)
    with assms pl k1 show ?thesis
      by (auto simp: pipeline_def)
  next
    case (Inr p)
    obtain e2 o2 where lp: "research_loop n env (researcherModel rq) [researcher_seed (search_term p)] = (e2, o2)"
      by (cases "research_loop n env (researcherModel rq) [researcher_seed (search_term p)]")
    note k2 = research_loop_kinds [OF lp]
    from k1 Inr have k1': "map kind e1 = [planning_start, plan_produced, delegate researcher]" by simp
    show ?thesis
    proof (cases o2)
      case (Returns s)
      obtain e3 x3 where sy: "synthesis env rq p s = (e3, x3)"
        by (cases "synthesis env rq p s")
      note k3 = synthesis_kinds [OF sy]
      from k2 Returns obtain mid where
        mid: "map kind e2 = mid @ [research_done]" "set mid \<subseteq> set research_kinds" by auto
      show ?thesis
      proof (cases x3)
        case (Inl e)
        from assms pl \<open>x1 = Inr p\<close> lp Returns sy Inl
        have evs: "evs = e1 @ researcher_start # e2 @ e3" and out: "out = Throws e"
          by (auto simp: pipeline_def research_def)
        from Inl k3 consider (a) "map kind e3 = [review]"
          | (b) "map kind e3 = [review, delegate synthesizer, synthesis_start]"
          by auto
        then show ?thesis
        proof cases
          case a
          with evs k1' mid
          have "map kind evs = opening_kinds @ mid @ [research_done, review]"
            by (simp add: opening_kinds_def)
          with mid(2) out show ?thesis
            by auto
        next
          case b
          with evs k1' mid
          have "map kind evs =
              opening_kinds @ mid @ [research_done, review, delegate synthesizer, synthesis_start]"
            by (simp add: opening_kinds_def)
          with mid(2) out show ?thesis
            by auto
        qed
      next
        case (Inr a)
        with assms pl \<open>x1 = Inr p\<close> lp Returns sy k1' k3 mid show ?thesis
          by (auto simp: pipeline_def research_def opening_kinds_def)
      qed
    next
      case (Throws e)
      with assms pl Inr lp k1' k2 show ?thesis
        by (auto simp: pipeline_def research_def opening_kinds_def)
    next
      case (Running h)
      with assms pl Inr lp k1' k2 show ?thesis
        by (auto simp: pipeline_def research_def opening_kinds_def)
    qed
  qed
qed

lemma exact_or_error_same: "exact_or_error ks ks"
  by (induction ks) simp_all

lemma dropWhile_research:
  assumes "set mid \<subseteq> set research_kinds" and "rest = [] \<or> hd rest \<notin> set research_kinds"
  shows "dropWhile (\<lambda>k. k \<in> set research_kinds) (mid @ rest) = rest"
proof -
  from assms(1) have "dropWhile (\<lambda>k. k \<in> set research_kinds) (mid @ rest) =
      dropWhile (\<lambda>k. k \<in> set research_kinds) rest"
    by (intro dropWhile_append2) auto
  also from assms(2) have "\<dots> = rest"
    by (cases rest) auto
  finally show ?thesis .
qed

lemma in_order_after_opening:
  assumes "set mid \<subseteq> set research_kinds" and "rest = [] \<or> hd rest \<notin> set research_kinds"
  shows "in_order closing (opening_kinds @ mid @ rest) = exact_or_error closing rest"
  using dropWhile_research [OF assms]
  by (simp add: in_order_def opening_kinds_def)

lemma first_text_filter:
  "first_text bs = (case filter is_text bs of [] \<Rightarrow> [] | b # rest \<Rightarrow> block_text b)"
proof (induction bs)
  case Nil
  show ?case by (simp add: first_text_def)
next
  case (Cons b bs)
  then show ?case
    by (cases b) (simp_all add: first_text_def)
qed

lemma research_turn_done:
  "stop_reason r \<noteq> tool_use \<Longrightarrow>
   research_turn env msgs r = (thinking (content r) @ [researcher_done], Done (first_text (content r)))"
  by (simp add: research_turn_def)

lemma research_turn_done_only:
  "research_turn env msgs r = (evs, Done s) \<Longrightarrow>
   stop_reason r \<noteq> tool_use \<and> s = first_text (content r) \<and> evs = thinking (content r) @ [researcher_done]"
  by (auto simp: research_turn_def split: if_splits prod.splits sum.splits)

lemma research_loop_returns:
  "research_loop n env m msgs = (evs, Returns s) \<Longrightarrow>
   \<exists>msgs' r. messages_create env (researcher_request m msgs') = Inr r \<and>
             stop_reason r \<noteq> tool_use \<and> s = first_text (content r) \<and>
             evs \<noteq> [] \<and> last evs = researcher_done"
proof (induction n arbitrary: msgs evs)
  case 0
  then show ?case by simp
next
  case (Suc n)
  from Suc.prems obtain r where r: "messages_create env (researcher_request m msgs) = Inr r"
    by (auto split: sum.splits)
  obtain e1 t where t: "research_turn env msgs r = (e1, t)"
    by (cases "research_turn env msgs r")
  show ?case
  proof (cases t)
    case (Next msgs')
    obtain e2 o2 where l: "research_loop n env m msgs' = (e2, o2)"
      by (cases "research_loop n env m msgs'")
    with Suc.prems r t Next have eq: "evs = e1 @ e2" "o2 = Returns s" by auto
    from Suc.IH [OF l [unfolded eq(2)]] obtain msgs'' r' where
      "messages_create env (researcher_request m msgs'') = Inr r'" "stop_reason r' \<noteq> tool_use"
      "s = first_text (content r')" "e2 \<noteq> []" "last e2 = researcher_done"
      by blast
    with eq(1) show ?thesis
      by (intro exI [of _ msgs''] exI [of _ r']) simp
  next
    case (Done s')
    with research_turn_done_only [of env msgs r e1 s'] t Suc.prems r
    have "stop_reason r \<noteq> tool_use" "s = first_text (content r)" "evs \<noteq> []"
      "last evs = researcher_done"
      by auto
    with r show ?thesis
      by (intro exI [of _ msgs] exI [of _ r]) simp
  next
    case (Raised e)
    with Suc.prems r t show ?thesis by simp
  qed
qed

lemma tag_follows_iff: "tag_follows cs \<longleftrightarrow> cs \<noteq> [] \<and> hd cs \<noteq> 0x3E \<and> 0x3E \<in> set cs"
proof -
  have "takeWhile (\<lambda>c. c \<noteq> (0x3E :: code_unit)) cs \<noteq> [] \<longleftrightarrow> cs \<noteq> [] \<and> hd cs \<noteq> 0x3E"
    by (cases cs) auto
  moreover have "dropWhile (\<lambda>c. c \<noteq> (0x3E :: code_unit)) cs \<noteq> [] \<longleftrightarrow> 0x3E \<in> set cs"
    by (auto simp: dropWhile_eq_Nil_conv)
  ultimately show ?thesis
    by (simp add: tag_follows_def)
qed

lemma set_strip_tags: "set (strip_tags s) \<subseteq> set s"
proof (induction s rule: strip_tags.induct)
  case 1
  show ?case by simp
next
  case (2 c cs)
  show ?case
  proof (cases "c = 0x3C \<and> tag_follows cs")
    case True
    have "set (tl (dropWhile (\<lambda>c. c \<noteq> 0x3E) cs)) \<subseteq> set cs"
      by (metis list.set_sel(2) set_dropWhileD subsetI tl_Nil)
    with True "2.IH"(1) show ?thesis by auto
  next
    case False
    with "2.IH"(2) show ?thesis by auto
  qed
qed

lemma strip_tags_keeps_gt: "s \<noteq> [] \<Longrightarrow> hd s = 0x3E \<Longrightarrow> strip_tags s \<noteq> [] \<and> hd (strip_tags s) = 0x3E"
  by (cases s) auto

lemma tag_follows_strip_tags: "tag_follows (strip_tags cs) \<Longrightarrow> tag_follows cs"
proof -
  assume a: "tag_follows (strip_tags cs)"
  then have 1: "strip_tags cs \<noteq> []" "hd (strip_tags cs) \<noteq> 0x3E" "0x3E \<in> set (strip_tags cs)"
    by (simp_all add: tag_follows_iff)
  from 1(1) have ne: "cs \<noteq> []" by (cases cs) auto
  from 1(2) strip_tags_keeps_gt [OF ne] have "hd cs \<noteq> 0x3E" by blast
  moreover from 1(3) set_strip_tags have "0x3E \<in> set cs" by blast
  ultimately show ?thesis using ne by (simp add: tag_follows_iff)
qed

lemma strip_tags_no_tag: "\<not> has_tag (strip_tags s)"
proof (induction s rule: strip_tags.induct)
  case 1
  show ?case by simp
next
  case (2 c cs)
  show ?case
  proof (cases "c = 0x3C \<and> tag_follows cs")
    case True
    with "2.IH"(1) show ?thesis by simp
  next
    case False
    with "2.IH"(2) tag_follows_strip_tags [of cs] show ?thesis by auto
  qed
qed

lemma searchWikipedia_ok:
  assumes "encodeURIComponent (to_string q) = Inr u"
      and "fetch_search env u 5 = Responds True (Inr d)"
  shows "searchWikipedia env q =
           Inr (map (\<lambda>p. Candidate (p_title p) (case excerpt p of None \<Rightarrow> [] | Some x \<Rightarrow> strip_tags x))
                  (case pages d of None \<Rightarrow> [] | Some ps \<Rightarrow> ps))"
  using assms by (simp add: searchWikipedia_def)

lemma plan_keys_differ: "ascii ''search_term'' \<noteq> ascii ''response_format''"
  by (simp add: ascii_def)

lemma planning_fallback:
  assumes "messages_create env (supervisor_request rq) = Inr resp"
      and "first_block_text (content resp) = Inr raw"
      and "JSON_parse (plan_text raw) = None"
  shows "planning env rq =
           ([supervisor_start supervisor_start_message,
             supervisor_plan (Some (JStr (question rq))) (Some (JStr default_format)),
             supervisor_delegate researcher (researcherInstruction (Some (JStr (question rq))))],
            Inr (fallback_plan rq))"
proof -
  from assms(3) have "resolve_plan (question rq) raw = default_plan (question rq)"
    by (simp add: resolve_plan_def)
  with assms(1,2) plan_keys_differ show ?thesis
    by (simp add: planning_def read_property_def own_member_def default_plan_def
        fallback_plan_def template_throws_def)
qed

text \<open>What planning does with a plan that parsed and is not \<^verbatim>\<open>null\<close>.\<close>

lemma planning_parsed:
  assumes "messages_create env (supervisor_request rq) = Inr resp"
      and "first_block_text (content resp) = Inr raw"
      and "JSON_parse (plan_text raw) = Some v"
      and "v \<noteq> JNull"
  shows "planning env rq =
           (if template_throws (own_member v (ascii ''search_term''))
            then ([supervisor_start supervisor_start_message,
                   supervisor_plan (own_member v (ascii ''search_term''))
                     (own_member v (ascii ''response_format''))],
                  Inl (ErrorObj not_primitive_message))
            else ([supervisor_start supervisor_start_message,
                   supervisor_plan (own_member v (ascii ''search_term''))
                     (own_member v (ascii ''response_format'')),
                   supervisor_delegate researcher
                     (researcherInstruction (own_member v (ascii ''search_term'')))],
                  Inr \<lparr>search_term = own_member v (ascii ''search_term''),
                       response_format = own_member v (ascii ''response_format'')\<rparr>))"
proof -
  from assms(3) have r: "resolve_plan (question rq) raw = v"
    by (simp add: resolve_plan_def)
  from assms(4) have "\<And>k. read_property v k = Inr (own_member v k)"
    by (cases v) (simp_all add: read_property_def)
  with assms(1,2) r show ?thesis
    by (simp add: planning_def)
qed

lemma JSON_parse_empty: "JSON_parse (plan_text []) = None"
  by (simp add: plan_text_def match_braces_def JSON_parse_def)

section \<open>Properties of the handler\<close>

text \<open>
  C2, as the handler has it. On a response whose stop reason is \<open>tool_use\<close>, when every
  tool invocation request of the response is answered (with whatever status), the
  iteration appends to the history one assistant turn that echoes the response's
  blocks and then one user turn holding all the results: one result per request, in
  the order of the requests, each with the request's id. When a request is not answered
  (its argument cannot be written into the URL, the request is rejected, or the body of
  a successful response does not decode), the iteration throws instead: no turn is
  appended, and the results collected before are dropped.
\<close>

theorem tool_results_paired:
  assumes "stop_reason r = tool_use"
  shows "(list_all (request_answered env) (filter is_tool_use (content r)) \<longrightarrow>
            (\<exists>evs results.
               research_turn env msgs r =
                 (evs, Next (msgs @ [MessageParam assistant (Blocks (content r)),
                                     MessageParam user (ToolResults results)])) \<and>
               length results = length (filter is_tool_use (content r)) \<and>
               map tool_use_id results = map use_id (filter is_tool_use (content r)))) \<and>
         (\<not> list_all (request_answered env) (filter is_tool_use (content r)) \<longrightarrow>
            (\<exists>evs e. research_turn env msgs r = (evs, Raised e))) \<and>
         (\<forall>evs msgs'. research_turn env msgs r = (evs, Next msgs') \<longrightarrow>
            (\<exists>results.
               msgs' = msgs @ [MessageParam assistant (Blocks (content r)),
                               MessageParam user (ToolResults results)] \<and>
               length results = length (filter is_tool_use (content r)) \<and>
               map tool_use_id results = map use_id (filter is_tool_use (content r))))"
proof (intro conjI impI allI)
  assume "list_all (request_answered env) (filter is_tool_use (content r))"
  then have "list_all (request_answered env) (filter is_tool_use (filter is_tool_use (content r)))"
    by simp
  from dispatch_returns [OF this] obtain evs rs where
    d: "dispatch env (filter is_tool_use (content r)) = (evs, Inr rs)"
    by blast
  from dispatch_ids [OF d] have ids: "map tool_use_id rs = map use_id (filter is_tool_use (content r))"
    by simp
  then have len: "length rs = length (filter is_tool_use (content r))"
    by (metis length_map)
  from d assms have "research_turn env msgs r =
      (thinking (content r) @ evs,
       Next (msgs @ [MessageParam assistant (Blocks (content r)), MessageParam user (ToolResults rs)]))"
    by (simp add: research_turn_def)
  with ids len
  show "\<exists>evs results.
          research_turn env msgs r =
            (evs, Next (msgs @ [MessageParam assistant (Blocks (content r)),
                                MessageParam user (ToolResults results)])) \<and>
          length results = length (filter is_tool_use (content r)) \<and>
          map tool_use_id results = map use_id (filter is_tool_use (content r))"
    by blast
next
  assume "\<not> list_all (request_answered env) (filter is_tool_use (content r))"
  then have "\<not> list_all (request_answered env) (filter is_tool_use (filter is_tool_use (content r)))"
    by simp
  from dispatch_throws [OF this] obtain evs e where
    "dispatch env (filter is_tool_use (content r)) = (evs, Inl e)"
    by blast
  with assms have "research_turn env msgs r = (thinking (content r) @ evs, Raised e)"
    by (simp add: research_turn_def)
  then show "\<exists>evs e. research_turn env msgs r = (evs, Raised e)"
    by blast
next
  fix evs msgs'
  assume "research_turn env msgs r = (evs, Next msgs')"
  from research_turn_next [OF this] obtain results evs' where
    d: "dispatch env (filter is_tool_use (content r)) = (evs', Inr results)" and
    m: "msgs' = msgs @ [MessageParam assistant (Blocks (content r)),
                        MessageParam user (ToolResults results)]"
    by blast
  from dispatch_ids [OF d] have ids: "map tool_use_id results = map use_id (filter is_tool_use (content r))"
    by simp
  then have "length results = length (filter is_tool_use (content r))"
    by (metis length_map)
  with m ids
  show "\<exists>results.
          msgs' = msgs @ [MessageParam assistant (Blocks (content r)),
                          MessageParam user (ToolResults results)] \<and>
          length results = length (filter is_tool_use (content r)) \<and>
          map tool_use_id results = map use_id (filter is_tool_use (content r))"
    by blast
qed

theorem tool_results_paired_witness:
  "stop_reason two_calls = tool_use \<and>
   list_all (request_answered scenario) (filter is_tool_use (content two_calls)) \<and>
   (\<exists>evs results.
      research_turn scenario [seed_X] two_calls =
        (evs, Next [seed_X, MessageParam assistant (Blocks (content two_calls)),
                    MessageParam user (ToolResults results)]) \<and>
      map tool_use_id results = [ascii ''t1'', ascii ''t2'', ascii ''t3'']) \<and>
   stop_reason search_then_article = tool_use \<and>
   \<not> list_all (request_answered summary_rejected) (filter is_tool_use (content search_then_article)) \<and>
   (\<exists>evs e. research_turn summary_rejected [seed_X] search_then_article = (evs, Raised e))"
proof -
  have s: "stop_reason two_calls = tool_use"
    by (simp add: two_calls_def)
  have a: "list_all (request_answered scenario) (filter is_tool_use (content two_calls))"
    by code_simp
  have ids: "map use_id (filter is_tool_use (content two_calls)) = [ascii ''t1'', ascii ''t2'', ascii ''t3'']"
    by (simp add: two_calls_def search_call_def article_call_def)
  have s': "stop_reason search_then_article = tool_use"
    by (simp add: search_then_article_def)
  have a': "\<not> list_all (request_answered summary_rejected) (filter is_tool_use (content search_then_article))"
    by code_simp
  from tool_results_paired [OF s, of scenario "[seed_X]"] a ids
  have 1: "\<exists>evs results.
      research_turn scenario [seed_X] two_calls =
        (evs, Next [seed_X, MessageParam assistant (Blocks (content two_calls)),
                    MessageParam user (ToolResults results)]) \<and>
      map tool_use_id results = [ascii ''t1'', ascii ''t2'', ascii ''t3'']"
    by fastforce
  from tool_results_paired [OF s', of summary_rejected "[seed_X]"] a'
  have 2: "\<exists>evs e. research_turn summary_rejected [seed_X] search_then_article = (evs, Raised e)"
    by blast
  from s a 1 s' a' 2 show ?thesis
    by blast
qed

text \<open>
  The follow-up turn is not there regardless of failure: when the search is answered and
  the article request is rejected, the iteration throws after the first result, nothing
  is appended to the history, and the loop ends in the throw.
\<close>

theorem tool_results_dropped_counterexample:
  "stop_reason search_then_article = tool_use \<and>
   research_turn summary_rejected [seed_X] search_then_article =
     ([researcher_tool_call (ascii ''search_wikipedia'') [(ascii ''query'', ascii ''X'')],
       researcher_tool_result (ascii ''search_wikipedia'') (ascii ''X'') (Some 1),
       researcher_tool_call (ascii ''get_wikipedia_article'') [(ascii ''title'', ascii ''X'')]],
      Raised fetch_failed) \<and>
   snd (research_loop 2 summary_rejected (ascii ''sonnet'') [seed_X]) = Throws fetch_failed"
  by code_simp

text \<open>
  C10. The history starts as one user turn, and whenever the loop is about to call the
  model (after any number \<open>k\<close> of iterations) the roles of the history are \<open>user\<close>
  followed by \<open>k\<close> pairs \<open>assistant, user\<close>: the length is odd, the first and the last turn
  are user turns, and no two neighbours have the same role.
\<close>

theorem history_alternates:
  assumes "pipeline k env rq = (evs, Running msgs)"
  shows "map role msgs = user # concat (replicate k [assistant, user]) \<and>
         length msgs = 2 * k + 1 \<and> odd (length msgs) \<and>
         role (hd msgs) = user \<and> role (last msgs) = user \<and>
         alternates (map role msgs)"
proof -
  from pipeline_running [OF assms] obtain p :: plan and evs' where
    "research_loop k env (researcherModel rq) [researcher_seed (search_term p)] = (evs', Running msgs)"
    by blast
  from research_loop_running_roles [OF this]
  have roles: "map role msgs = user # concat (replicate k [assistant, user])"
    by (simp add: researcher_seed_def)
  then have ne: "msgs \<noteq> []" by auto
  have "length (map role msgs) = 2 * k + 1"
    unfolding roles by (simp add: length_concat sum_list_replicate)
  then have len: "length msgs = 2 * k + 1" by simp
  have "last (map role msgs) = user"
    unfolding roles by (rule last_user_first)
  with ne have la: "role (last msgs) = user" by (simp add: last_map)
  from roles ne have hd: "role (hd msgs) = user" by (cases msgs) auto
  have "alternates (map role msgs)"
    unfolding roles by (rule alternates_user_first)
  with roles len la hd show ?thesis by simp
qed

theorem history_alternates_witness:
  "is_Running (snd (pipeline 2 scenario ask_X)) \<and>
   map role (history (snd (pipeline 2 scenario ask_X))) = [user, assistant, user, assistant, user]"
proof -
  have r: "is_Running (snd (pipeline 2 scenario ask_X))"
    by code_simp
  then obtain msgs where sm: "snd (pipeline 2 scenario ask_X) = Running msgs"
    by (cases "snd (pipeline 2 scenario ask_X)") auto
  then have h: "pipeline 2 scenario ask_X = (fst (pipeline 2 scenario ask_X), Running msgs)"
    by (simp add: prod_eq_iff)
  from history_alternates [OF h]
  have "map role msgs = user # concat (replicate 2 [assistant, user])"
    by simp
  then have "map role msgs = [user, assistant, user, assistant, user]"
    by (simp add: numeral_2_eq_2)
  with r sm show ?thesis
    by simp
qed

text \<open>
  C3, as the handler has it. The events of a run come in this order: planning-start,
  plan-produced, delegate(researcher), research-start, any number of research-thinking,
  research-tool-call and research-tool-result, research-done, the supervisor's review,
  delegate(synthesizer), synthesis-start, synthesis-done, pipeline-done; or a proper
  start of that sequence ended by one error event. While the research loop is still
  going the stream is open and holds a start of that sequence.
\<close>

theorem events_in_order:
  "if closed (POST n env rq)
   then emitted_order (map kind (events (POST n env rq)))
   else emitted_order (map kind (events (POST n env rq)) @ closing_kinds)"
proof -
  obtain evs out where p: "pipeline n env rq = (evs, out)"
    by (cases "pipeline n env rq")
  note k = pipeline_kinds [OF p]
  show ?thesis
  proof (cases out)
    case (Returns a)
    with k obtain mid where mid: "set mid \<subseteq> set research_kinds"
      "map kind evs = opening_kinds @ mid @ closing_kinds"
      by (auto simp: closing_kinds_def)
    have "in_order closing_kinds (opening_kinds @ mid @ closing_kinds)"
      using in_order_after_opening [OF mid(1), of closing_kinds closing_kinds] exact_or_error_same
      by (simp add: closing_kinds_def research_kinds_def)
    with p Returns mid show ?thesis
      by (simp add: POST_def emitted_order_def)
  next
    case (Running h)
    with k obtain mid where mid: "set mid \<subseteq> set research_kinds"
      "map kind evs = opening_kinds @ mid"
      by auto
    have "in_order closing_kinds (opening_kinds @ mid @ closing_kinds)"
      using in_order_after_opening [OF mid(1), of closing_kinds closing_kinds] exact_or_error_same
      by (simp add: closing_kinds_def research_kinds_def)
    with p Running mid show ?thesis
      by (simp add: POST_def emitted_order_def)
  next
    case (Throws e)
    with k consider
        (plan) "map kind evs = [planning_start]"
      | (plan2) "map kind evs = [planning_start, plan_produced]"
      | (loop) mid where "set mid \<subseteq> set research_kinds" "map kind evs = opening_kinds @ mid"
      | (review) mid where "set mid \<subseteq> set research_kinds"
          "map kind evs = opening_kinds @ mid @ [research_done, review]"
      | (synth) mid where "set mid \<subseteq> set research_kinds"
          "map kind evs = opening_kinds @ mid @ [research_done, review, delegate synthesizer, synthesis_start]"
      by auto
    then have "in_order closing_kinds (map kind evs @ [error_kind])"
    proof cases
      case plan
      then show ?thesis
        by (simp add: in_order_def opening_kinds_def)
    next
      case plan2
      then show ?thesis
        by (simp add: in_order_def opening_kinds_def)
    next
      case (loop mid)
      with in_order_after_opening [OF loop(1), of "[error_kind]" closing_kinds]
      show ?thesis
        by (simp add: closing_kinds_def research_kinds_def)
    next
      case (review mid)
      with in_order_after_opening [OF review(1),
          of "[research_done, review, error_kind]" closing_kinds]
      show ?thesis
        by (simp add: closing_kinds_def research_kinds_def)
    next
      case (synth mid)
      with in_order_after_opening [OF synth(1),
          of "[research_done, review, delegate synthesizer, synthesis_start, error_kind]" closing_kinds]
      show ?thesis
        by (simp add: closing_kinds_def research_kinds_def)
    qed
    with p Throws show ?thesis
      by (simp add: POST_def emitted_order_def)
  qed
qed

theorem events_in_order_witness:
  "closed (POST 3 scenario ask_X) \<and> emitted_order (map kind (events (POST 3 scenario ask_X))) \<and>
   \<not> closed (POST 2 scenario ask_X) \<and>
   emitted_order (map kind (events (POST 2 scenario ask_X)) @ closing_kinds) \<and>
   closed (POST 1 synthesizer_down ask_X) \<and>
   emitted_order (map kind (events (POST 1 synthesizer_down ask_X)))"
proof -
  have a: "closed (POST 3 scenario ask_X)" by code_simp
  have b: "\<not> closed (POST 2 scenario ask_X)" by code_simp
  have c: "closed (POST 1 synthesizer_down ask_X)" by code_simp
  from events_in_order [of 3 scenario ask_X] events_in_order [of 2 scenario ask_X]
    events_in_order [of 1 synthesizer_down ask_X] a b c
  show ?thesis by simp
qed

text \<open>
  The order that the specification lists has no review event between research-done
  and delegate(synthesizer); the events of the completed scenario are not in that order.
\<close>

theorem events_in_claimed_order_counterexample:
  "closed (POST 3 scenario ask_X) \<and> \<not> claimed_order (map kind (events (POST 3 scenario ask_X)))"
  by code_simp

text \<open>
  C6. When something thrown reaches the outer \<^verbatim>\<open>catch\<close>, the run ends with exactly one
  error event, the last one, carrying the message of the thrown error (or the fixed
  text for a thrown value that is no error); the stream is closed; and no synthesis-done
  and no pipeline-done event is in the stream, so no final answer was given.
\<close>

theorem failure_contained:
  assumes "pipeline n env rq = (evs, Throws err)"
  shows "POST n env rq = \<lparr>events = evs @ [error_event (error_message err)], closed = True\<rparr> \<and>
         filter (\<lambda>e. kind e = error_kind) (events (POST n env rq)) = [error_event (error_message err)] \<and>
         synthesis_done \<notin> set (map kind (events (POST n env rq))) \<and>
         pipeline_done \<notin> set (map kind (events (POST n env rq)))"
proof -
  from assms have post: "POST n env rq = \<lparr>events = evs @ [error_event (error_message err)], closed = True\<rparr>"
    by (simp add: POST_def)
  from pipeline_kinds [OF assms] consider
      (plan) "map kind evs = [planning_start]"
    | (plan2) "map kind evs = [planning_start, plan_produced]"
    | (loop) mid where "set mid \<subseteq> set research_kinds" "map kind evs = opening_kinds @ mid"
    | (review) mid where "set mid \<subseteq> set research_kinds"
        "map kind evs = opening_kinds @ mid @ [research_done, review]"
    | (synth) mid where "set mid \<subseteq> set research_kinds"
        "map kind evs = opening_kinds @ mid @ [research_done, review, delegate synthesizer, synthesis_start]"
    by auto
  then have none: "error_kind \<notin> set (map kind evs) \<and> synthesis_done \<notin> set (map kind evs) \<and>
    pipeline_done \<notin> set (map kind evs)"
  proof cases
    case plan
    show ?thesis
      unfolding plan by simp
  next
    case plan2
    show ?thesis
      unfolding plan2 by simp
  next
    case (loop mid)
    from loop(1) have "error_kind \<notin> set mid \<and> synthesis_done \<notin> set mid \<and> pipeline_done \<notin> set mid"
      by (auto simp: research_kinds_def)
    then show ?thesis
      unfolding loop(2) by (simp add: opening_kinds_def)
  next
    case (review mid)
    from review(1) have "error_kind \<notin> set mid \<and> synthesis_done \<notin> set mid \<and> pipeline_done \<notin> set mid"
      by (auto simp: research_kinds_def)
    then show ?thesis
      unfolding review(2) by (simp add: opening_kinds_def)
  next
    case (synth mid)
    from synth(1) have "error_kind \<notin> set mid \<and> synthesis_done \<notin> set mid \<and> pipeline_done \<notin> set mid"
      by (auto simp: research_kinds_def)
    then show ?thesis
      unfolding synth(2) by (simp add: opening_kinds_def)
  qed
  then have "filter (\<lambda>e. kind e = error_kind) evs = []"
    by (force simp: filter_empty_conv)
  with post none show ?thesis
    by simp
qed

theorem failure_contained_witness:
  "messages_create synthesizer_down (synthesizer_request ask_X
      \<lparr>search_term = Some (JStr (ascii ''X'')), response_format = Some (JStr (ascii ''short summary''))\<rparr>
      (ascii ''X is ...'')) = Inl (ErrorObj (ascii ''Overloaded'')) \<and>
   closed (POST 1 synthesizer_down ask_X) \<and>
   map kind (events (POST 1 synthesizer_down ask_X)) =
     [planning_start, plan_produced, delegate researcher, research_start, research_thinking,
      research_done, review, delegate synthesizer, synthesis_start, error_kind] \<and>
   last (events (POST 1 synthesizer_down ask_X)) = error_event (ascii ''Overloaded'')"
proof -
  have "snd (pipeline 1 synthesizer_down ask_X) = Throws (ErrorObj (ascii ''Overloaded''))"
    by code_simp
  then have h: "pipeline 1 synthesizer_down ask_X =
      (fst (pipeline 1 synthesizer_down ask_X), Throws (ErrorObj (ascii ''Overloaded'')))"
    by (simp add: prod_eq_iff)
  have k: "map kind (fst (pipeline 1 synthesizer_down ask_X)) =
     [planning_start, plan_produced, delegate researcher, research_start, research_thinking,
      research_done, review, delegate synthesizer, synthesis_start]"
    by code_simp
  have c: "messages_create synthesizer_down (synthesizer_request ask_X
      \<lparr>search_term = Some (JStr (ascii ''X'')), response_format = Some (JStr (ascii ''short summary''))\<rparr>
      (ascii ''X is ...'')) = Inl (ErrorObj (ascii ''Overloaded''))"
    by (simp add: synthesizer_down_def scripted_env_def synthesizer_request_def)
  from failure_contained [OF h] k c show ?thesis
    by (simp add: error_message_def)
qed

text \<open>
  C4, as the handler has it. The stop reason alone decides. On a response whose stop
  reason is not \<open>tool_use\<close> the loop ends: it emits the response's texts that are not
  blank as thinking, then research-done, and returns the text of the first text block
  of that response, or the empty string when it has none. And the loop returns only
  so: on a response whose stop reason is not \<open>tool_use\<close>.
\<close>

theorem research_loop_ends:
  "(messages_create env (researcher_request m msgs) = Inr r \<and> stop_reason r \<noteq> tool_use \<longrightarrow>
      research_loop (Suc n) env m msgs =
        (thinking (content r) @ [researcher_done], Returns (first_text (content r))) \<and>
      first_text (content r) =
        (case filter is_text (content r) of [] \<Rightarrow> [] | b # rest \<Rightarrow> block_text b)) \<and>
   (research_loop k env m msgs = (evs, Returns s) \<longrightarrow>
      (\<exists>msgs' r'. messages_create env (researcher_request m msgs') = Inr r' \<and>
                  stop_reason r' \<noteq> tool_use \<and> s = first_text (content r') \<and>
                  last evs = researcher_done))"
proof (intro conjI impI)
  assume a: "messages_create env (researcher_request m msgs) = Inr r \<and> stop_reason r \<noteq> tool_use"
  then show "research_loop (Suc n) env m msgs =
        (thinking (content r) @ [researcher_done], Returns (first_text (content r)))"
    by (simp add: research_turn_done)
  show "first_text (content r) =
        (case filter is_text (content r) of [] \<Rightarrow> [] | b # rest \<Rightarrow> block_text b)"
    by (rule first_text_filter)
next
  assume "research_loop k env m msgs = (evs, Returns s)"
  from research_loop_returns [OF this]
  show "\<exists>msgs' r'. messages_create env (researcher_request m msgs') = Inr r' \<and>
                  stop_reason r' \<noteq> tool_use \<and> s = first_text (content r') \<and>
                  last evs = researcher_done"
    by blast
qed

theorem research_loop_ends_witness:
  "messages_create answers_at_once (researcher_request (ascii ''sonnet'') [seed_X]) =
     Inr \<lparr>content = [TextBlock (ascii ''X is ...'')], stop_reason = end_turn\<rparr> \<and>
   research_loop 1 answers_at_once (ascii ''sonnet'') [seed_X] =
     ([researcher_thinking (ascii ''X is ...''), researcher_done], Returns (ascii ''X is ...'')) \<and>
   snd (research_loop 3 scenario (ascii ''sonnet'') [seed_X]) = Returns (ascii ''X is ...'') \<and>
   last (fst (research_loop 3 scenario (ascii ''sonnet'') [seed_X])) = researcher_done"
proof -
  let ?r = "\<lparr>content = [TextBlock (ascii ''X is ...'')], stop_reason = end_turn\<rparr>"
  have a: "messages_create answers_at_once (researcher_request (ascii ''sonnet'') [seed_X]) = Inr ?r"
    by (simp add: answers_at_once_def scripted_env_def researcher_request_def closing_reply_def)
  have b: "stop_reason ?r \<noteq> tool_use"
    by simp
  have t: "thinking (content ?r) = [researcher_thinking (ascii ''X is ...'')]"
    by code_simp
  have f: "first_text (content ?r) = ascii ''X is ...''"
    by (simp add: first_text_def)
  have c: "snd (research_loop 3 scenario (ascii ''sonnet'') [seed_X]) = Returns (ascii ''X is ...'')"
    by code_simp
  then have d: "research_loop 3 scenario (ascii ''sonnet'') [seed_X] =
      (fst (research_loop 3 scenario (ascii ''sonnet'') [seed_X]), Returns (ascii ''X is ...''))"
    by (simp add: prod_eq_iff)
  from research_loop_ends [of answers_at_once "ascii ''sonnet''" "[seed_X]" ?r 0 3
      "fst (research_loop 3 scenario (ascii ''sonnet'') [seed_X])" "ascii ''X is ...''"] a b t f
  have 1: "research_loop 1 answers_at_once (ascii ''sonnet'') [seed_X] =
     ([researcher_thinking (ascii ''X is ...''), researcher_done], Returns (ascii ''X is ...''))"
    by simp
  from research_loop_ends [of scenario "ascii ''sonnet''" "[seed_X]" ?r 0 3
      "fst (research_loop 3 scenario (ascii ''sonnet'') [seed_X])" "ascii ''X is ...''"] d
  have 2: "last (fst (research_loop 3 scenario (ascii ''sonnet'') [seed_X])) = researcher_done"
    by blast
  from a 1 c 2 show ?thesis by simp
qed

text \<open>
  The loop does end while a tool invocation request of the current turn is unanswered:
  a response cut at the token limit holds the request, the stop reason is not
  \<open>tool_use\<close>, and the loop returns without a tool call and without a result.
\<close>

theorem research_loop_pending_request_counterexample:
  "messages_create cut_short (researcher_request (ascii ''sonnet'') [seed_X]) =
     Inr \<lparr>content = [search_call], stop_reason = max_tokens_reached\<rparr> \<and>
   is_tool_use search_call \<and>
   research_loop 1 cut_short (ascii ''sonnet'') [seed_X] = ([researcher_done], Returns [])"
  by code_simp

text \<open>
  C7, as the handler has it. The synthesizer is called only when the response format of
  the plan converts to a string; when it does not, the run leaves the phase after the
  review event, with a \<^verbatim>\<open>TypeError\<close>, and there is no synthesis-done event. When the
  synthesizer is called, its response is read at its first block: a response without a
  block makes the read throw, and there is no synthesis-done event; for a response with
  at least one block, the answer of the synthesis-done event is the text of the first
  block when that block is text, and the empty string otherwise. That is the first text
  block of the response when the first block is text or no block is.
\<close>

theorem final_answer_first_block:
  assumes "messages_create env (synthesizer_request rq p s) = Inr r"
  shows "(template_throws (response_format p) \<longrightarrow>
            synthesis env rq p s =
              ([supervisor_review supervisor_review_message],
               Inl (ErrorObj not_primitive_message))) \<and>
         (\<not> template_throws (response_format p) \<and> content r = [] \<longrightarrow>
            synthesis env rq p s =
              ([supervisor_review supervisor_review_message,
                supervisor_delegate synthesizer
                  (synthesizerInstruction (question rq) (response_format p)),
                synthesizer_start],
               Inl (ErrorObj undefined_type_message))) \<and>
         (\<forall>b bs. \<not> template_throws (response_format p) \<and> content r = b # bs \<longrightarrow>
            synthesis env rq p s =
              ([supervisor_review supervisor_review_message,
                supervisor_delegate synthesizer
                  (synthesizerInstruction (question rq) (response_format p)),
                synthesizer_start,
                synthesizer_done (if is_text b then block_text b else []),
                supervisor_done],
               Inr (if is_text b then block_text b else [])) \<and>
            (if is_text b \<or> filter is_text bs = []
             then (if is_text b then block_text b else []) = first_text (content r)
             else first_text (content r) = block_text (hd (filter is_text bs))))"
proof (intro conjI allI impI)
  assume "template_throws (response_format p)"
  then show "synthesis env rq p s =
      ([supervisor_review supervisor_review_message], Inl (ErrorObj not_primitive_message))"
    by (simp add: synthesis_def)
next
  assume "\<not> template_throws (response_format p) \<and> content r = []"
  with assms show "synthesis env rq p s =
      ([supervisor_review supervisor_review_message,
        supervisor_delegate synthesizer
          (synthesizerInstruction (question rq) (response_format p)),
        synthesizer_start],
       Inl (ErrorObj undefined_type_message))"
    by (simp add: synthesis_def first_block_text_def)
next
  fix b bs
  assume a: "\<not> template_throws (response_format p) \<and> content r = b # bs"
  then have "first_block_text (content r) = Inr (if is_text b then block_text b else [])"
    by (cases b) (simp_all add: first_block_text_def)
  with assms a show "synthesis env rq p s =
           ([supervisor_review supervisor_review_message,
             supervisor_delegate synthesizer (synthesizerInstruction (question rq) (response_format p)),
             synthesizer_start,
             synthesizer_done (if is_text b then block_text b else []),
             supervisor_done],
            Inr (if is_text b then block_text b else []))"
    by (simp add: synthesis_def)
  from a have c: "content r = b # bs"
    by simp
  show "if is_text b \<or> filter is_text bs = []
          then (if is_text b then block_text b else []) = first_text (content r)
          else first_text (content r) = block_text (hd (filter is_text bs))"
    unfolding first_text_filter c
    by (cases "filter is_text bs") auto
qed

theorem final_answer_first_block_witness:
  "synthesis scenario ask_X plan_X (ascii ''X is ...'') =
     ([supervisor_review supervisor_review_message,
       supervisor_delegate synthesizer
         (synthesizerInstruction (ascii ''What is X?'') (Some (JStr (ascii ''short summary'')))),
       synthesizer_start, synthesizer_done (ascii ''# X''), supervisor_done],
      Inr (ascii ''# X'')) \<and>
   synthesis scenario ask_X plan_odd (ascii ''X is ...'') =
     ([supervisor_review supervisor_review_message], Inl (ErrorObj not_primitive_message)) \<and>
   synthesis no_blocks ask_X plan_X (ascii ''X is ...'') =
     ([supervisor_review supervisor_review_message,
       supervisor_delegate synthesizer
         (synthesizerInstruction (ascii ''What is X?'') (Some (JStr (ascii ''short summary'')))),
       synthesizer_start],
      Inl (ErrorObj undefined_type_message))"
proof -
  let ?r = "\<lparr>content = [TextBlock (ascii ''# X'')], stop_reason = end_turn\<rparr>"
  let ?e = "\<lparr>content = [], stop_reason = end_turn\<rparr>"
  have a: "messages_create scenario (synthesizer_request ask_X plan_X (ascii ''X is ...'')) = Inr ?r"
    by (simp add: scenario_def scripted_env_def synthesizer_request_def text_reply_def)
  have b: "messages_create scenario (synthesizer_request ask_X plan_odd (ascii ''X is ...'')) = Inr ?r"
    by (simp add: scenario_def scripted_env_def synthesizer_request_def text_reply_def)
  have c: "messages_create no_blocks (synthesizer_request ask_X plan_X (ascii ''X is ...'')) = Inr ?e"
    by (simp add: no_blocks_def scripted_env_def synthesizer_request_def)
  have x: "\<not> template_throws (response_format plan_X)"
    by (simp add: plan_X_def template_throws_def)
  have o: "template_throws (response_format plan_odd)"
    by (simp add: plan_odd_def template_throws_def)
  from final_answer_first_block [OF a] x
  have 1: "synthesis scenario ask_X plan_X (ascii ''X is ...'') =
     ([supervisor_review supervisor_review_message,
       supervisor_delegate synthesizer
         (synthesizerInstruction (question ask_X) (response_format plan_X)),
       synthesizer_start, synthesizer_done (ascii ''# X''), supervisor_done],
      Inr (ascii ''# X''))"
    by simp
  from final_answer_first_block [OF b] o
  have 2: "synthesis scenario ask_X plan_odd (ascii ''X is ...'') =
     ([supervisor_review supervisor_review_message], Inl (ErrorObj not_primitive_message))"
    by simp
  from final_answer_first_block [OF c] x
  have 3: "synthesis no_blocks ask_X plan_X (ascii ''X is ...'') =
     ([supervisor_review supervisor_review_message,
       supervisor_delegate synthesizer
         (synthesizerInstruction (question ask_X) (response_format plan_X)),
       synthesizer_start],
      Inl (ErrorObj undefined_type_message))"
    by simp
  from 1 2 3 show ?thesis
    by (simp add: ask_X_def plan_X_def)
qed

text \<open>
  The answer is not always the first text block: when a block of another type comes
  first, the synthesis-done event carries the empty string though the response has a
  text block. And a response format that does not convert to a string ends the run
  before the synthesizer is asked: the stream has the review event, then an error
  event, and no synthesis-done event.
\<close>

theorem final_answer_first_text_counterexample:
  "messages_create preamble_first (synthesizer_request ask_X plan_X (ascii ''X is ...'')) =
     Inr \<lparr>content = [OtherBlock, TextBlock (ascii ''# X'')], stop_reason = end_turn\<rparr> \<and>
   first_text [OtherBlock, TextBlock (ascii ''# X'')] = ascii ''# X'' \<and>
   closed (POST 1 preamble_first ask_X) \<and>
   filter (\<lambda>e. kind e = synthesis_done) (events (POST 1 preamble_first ask_X)) = [synthesizer_done []] \<and>
   closed (POST 1 odd_format ask_X) \<and>
   map kind (events (POST 1 odd_format ask_X)) =
     [planning_start, plan_produced, delegate researcher, research_start, research_thinking,
      research_done, review, error_kind]"
  by code_simp

text \<open>
  C5, as the handler has it. A tool invocation gives a string exactly when its request
  is answered: the argument can be written into the URL, the request is not rejected,
  and the body decodes when the status is a success. Then a search answered with a
  failure status or with no page gives the no-results text, an article request answered
  with a failure status gives the not-found text with the title, and a tool name that
  is neither of the two gives the unknown-tool text. Otherwise the tool invocation
  throws what the failing step threw (the \<^verbatim>\<open>URIError\<close> of the encoding, the rejection of
  the request, the error of the decoding); nothing in the loop catches it.
\<close>

theorem tool_invocation_results:
  "(request_answered env (ToolUseBlock i name input) \<longrightarrow>
      (\<exists>evs s. run_tool env i name input = (evs, Inr (ToolResult i s)))) \<and>
   (\<not> request_answered env (ToolUseBlock i name input) \<longrightarrow>
      (\<exists>e. run_tool env i name input = ([researcher_tool_call name input], Inl e))) \<and>
   (encodeURIComponent (to_string (map_of input (ascii ''query''))) = Inr q \<and>
    fetch_search env q 5 = Responds False res \<longrightarrow>
      snd (run_tool env i (ascii ''search_wikipedia'') input) = Inr (ToolResult i no_results)) \<and>
   (encodeURIComponent (to_string (map_of input (ascii ''query''))) = Inr q \<and>
    fetch_search env q 5 = Responds True (Inr d) \<and>
    (case pages d of None \<Rightarrow> [] | Some ps \<Rightarrow> ps) = [] \<longrightarrow>
      snd (run_tool env i (ascii ''search_wikipedia'') input) = Inr (ToolResult i no_results)) \<and>
   (encodeURIComponent (to_string (map_of input (ascii ''title''))) = Inr t \<and>
    fetch_summary env t = Responds False res' \<longrightarrow>
      snd (run_tool env i (ascii ''get_wikipedia_article'') input) =
        Inr (ToolResult i (article_not_found @ to_string (map_of input (ascii ''title''))))) \<and>
   (name \<noteq> ascii ''search_wikipedia'' \<and> name \<noteq> ascii ''get_wikipedia_article'' \<longrightarrow>
      run_tool env i name input =
        ([researcher_tool_call name input, researcher_tool_result name unknown_tool None],
         Inr (ToolResult i unknown_tool))) \<and>
   (encodeURIComponent (to_string (map_of input (ascii ''query''))) = Inl e \<or>
    encodeURIComponent (to_string (map_of input (ascii ''query''))) = Inr q \<and>
      (fetch_search env q 5 = Rejects e \<or> fetch_search env q 5 = Responds True (Inl e)) \<longrightarrow>
      run_tool env i (ascii ''search_wikipedia'') input =
        ([researcher_tool_call (ascii ''search_wikipedia'') input], Inl e)) \<and>
   (encodeURIComponent (to_string (map_of input (ascii ''title''))) = Inl e \<or>
    encodeURIComponent (to_string (map_of input (ascii ''title''))) = Inr t \<and>
      (fetch_summary env t = Rejects e \<or> fetch_summary env t = Responds True (Inl e)) \<longrightarrow>
      run_tool env i (ascii ''get_wikipedia_article'') input =
        ([researcher_tool_call (ascii ''get_wikipedia_article'') input], Inl e))"
proof (intro conjI impI)
  assume "request_answered env (ToolUseBlock i name input)"
  from run_tool_returns [OF this]
  show "\<exists>evs s. run_tool env i name input = (evs, Inr (ToolResult i s))" .
next
  assume "\<not> request_answered env (ToolUseBlock i name input)"
  from run_tool_throws [OF this]
  show "\<exists>e. run_tool env i name input = ([researcher_tool_call name input], Inl e)" .
next
  assume "encodeURIComponent (to_string (map_of input (ascii ''query''))) = Inr q \<and>
    fetch_search env q 5 = Responds False res"
  then show "snd (run_tool env i (ascii ''search_wikipedia'') input) = Inr (ToolResult i no_results)"
    by (simp add: run_tool_def searchWikipedia_def)
next
  assume "encodeURIComponent (to_string (map_of input (ascii ''query''))) = Inr q \<and>
    fetch_search env q 5 = Responds True (Inr d) \<and>
    (case pages d of None \<Rightarrow> [] | Some ps \<Rightarrow> ps) = []"
  then show "snd (run_tool env i (ascii ''search_wikipedia'') input) = Inr (ToolResult i no_results)"
    by (simp add: run_tool_def searchWikipedia_def)
next
  assume "encodeURIComponent (to_string (map_of input (ascii ''title''))) = Inr t \<and>
    fetch_summary env t = Responds False res'"
  with tool_names_differ
  show "snd (run_tool env i (ascii ''get_wikipedia_article'') input) =
        Inr (ToolResult i (article_not_found @ to_string (map_of input (ascii ''title''))))"
    by (simp add: run_tool_def getWikipediaArticle_def)
next
  assume "name \<noteq> ascii ''search_wikipedia'' \<and> name \<noteq> ascii ''get_wikipedia_article''"
  then show "run_tool env i name input =
        ([researcher_tool_call name input, researcher_tool_result name unknown_tool None],
         Inr (ToolResult i unknown_tool))"
    by (simp add: run_tool_def)
next
  assume "encodeURIComponent (to_string (map_of input (ascii ''query''))) = Inl e \<or>
    encodeURIComponent (to_string (map_of input (ascii ''query''))) = Inr q \<and>
      (fetch_search env q 5 = Rejects e \<or> fetch_search env q 5 = Responds True (Inl e))"
  then have "searchWikipedia env (map_of input (ascii ''query'')) = Inl e"
    by (auto simp: searchWikipedia_def)
  then show "run_tool env i (ascii ''search_wikipedia'') input =
        ([researcher_tool_call (ascii ''search_wikipedia'') input], Inl e)"
    by (simp add: run_tool_def)
next
  assume "encodeURIComponent (to_string (map_of input (ascii ''title''))) = Inl e \<or>
    encodeURIComponent (to_string (map_of input (ascii ''title''))) = Inr t \<and>
      (fetch_summary env t = Rejects e \<or> fetch_summary env t = Responds True (Inl e))"
  then have "getWikipediaArticle env (map_of input (ascii ''title'')) = Inl e"
    by (auto simp: getWikipediaArticle_def)
  with tool_names_differ
  show "run_tool env i (ascii ''get_wikipedia_article'') input =
        ([researcher_tool_call (ascii ''get_wikipedia_article'') input], Inl e)"
    by (simp add: run_tool_def)
qed

theorem tool_invocation_results_witness:
  "request_answered scenario search_call \<and>
   (\<exists>evs s. run_tool scenario (ascii ''t1'') (ascii ''search_wikipedia'') [(ascii ''query'', ascii ''X'')] =
              (evs, Inr (ToolResult (ascii ''t1'') s))) \<and>
   \<not> request_answered network_down search_call \<and>
   (\<exists>e. run_tool network_down (ascii ''t1'') (ascii ''search_wikipedia'') [(ascii ''query'', ascii ''X'')] =
          ([researcher_tool_call (ascii ''search_wikipedia'') [(ascii ''query'', ascii ''X'')]], Inl e)) \<and>
   snd (run_tool source_unavailable (ascii ''t1'') (ascii ''search_wikipedia'') [(ascii ''query'', ascii ''X'')]) =
     Inr (ToolResult (ascii ''t1'') no_results) \<and>
   snd (run_tool nothing_found (ascii ''t1'') (ascii ''search_wikipedia'') [(ascii ''query'', ascii ''X'')]) =
     Inr (ToolResult (ascii ''t1'') no_results) \<and>
   snd (run_tool source_unavailable (ascii ''t2'') (ascii ''get_wikipedia_article'') [(ascii ''title'', ascii ''X'')]) =
     Inr (ToolResult (ascii ''t2'') (article_not_found @ ascii ''X'')) \<and>
   snd (run_tool scenario (ascii ''t3'') (ascii ''delete_article'') []) =
     Inr (ToolResult (ascii ''t3'') unknown_tool) \<and>
   snd (run_tool scenario (ascii ''t1'') (ascii ''search_wikipedia'') [(ascii ''query'', lone_surrogate)]) =
     Inl (ErrorObj uri_malformed) \<and>
   snd (run_tool network_down (ascii ''t1'') (ascii ''search_wikipedia'') [(ascii ''query'', ascii ''X'')]) =
     Inl fetch_failed \<and>
   snd (run_tool undecodable (ascii ''t1'') (ascii ''search_wikipedia'') [(ascii ''query'', ascii ''X'')]) =
     Inl unexpected_token \<and>
   snd (run_tool scenario (ascii ''t2'') (ascii ''get_wikipedia_article'') [(ascii ''title'', lone_surrogate)]) =
     Inl (ErrorObj uri_malformed) \<and>
   snd (run_tool network_down (ascii ''t2'') (ascii ''get_wikipedia_article'') [(ascii ''title'', ascii ''X'')]) =
     Inl fetch_failed \<and>
   snd (run_tool undecodable (ascii ''t2'') (ascii ''get_wikipedia_article'') [(ascii ''title'', ascii ''X'')]) =
     Inl unexpected_token"
proof -
  let ?q = "[(ascii ''query'', ascii ''X'')]"
  let ?t = "[(ascii ''title'', ascii ''X'')]"
  let ?bq = "[(ascii ''query'', lone_surrogate)]"
  let ?bt = "[(ascii ''title'', lone_surrogate)]"
  let ?S = "ascii ''search_wikipedia''"
  let ?A = "ascii ''get_wikipedia_article''"
  note envs = scripted_env_def source_unavailable_def nothing_found_def network_down_def
    undecodable_def scenario_def
  have eq: "encodeURIComponent (to_string (map_of ?q (ascii ''query''))) = Inr (ascii ''X'')"
    by code_simp
  have et: "encodeURIComponent (to_string (map_of ?t (ascii ''title''))) = Inr (ascii ''X'')"
    by code_simp
  have ebq: "encodeURIComponent (to_string (map_of ?bq (ascii ''query''))) = Inl (ErrorObj uri_malformed)"
    by code_simp
  have ebt: "encodeURIComponent (to_string (map_of ?bt (ascii ''title''))) = Inl (ErrorObj uri_malformed)"
    by code_simp
  have tX: "to_string (map_of ?t (ascii ''title'')) = ascii ''X''"
    by (simp add: to_string_def)
  have a: "request_answered scenario search_call"
    by code_simp
  then have "request_answered scenario (ToolUseBlock (ascii ''t1'') ?S ?q)"
    by (simp add: search_call_def)
  with tool_invocation_results [where env = scenario and i = "ascii ''t1''" and name = ?S and input = ?q]
  have 1: "\<exists>evs s. run_tool scenario (ascii ''t1'') ?S ?q = (evs, Inr (ToolResult (ascii ''t1'') s))"
    by blast
  have b: "\<not> request_answered network_down search_call"
    by code_simp
  then have "\<not> request_answered network_down (ToolUseBlock (ascii ''t1'') ?S ?q)"
    by (simp add: search_call_def)
  with tool_invocation_results [where env = network_down and i = "ascii ''t1''" and name = ?S and input = ?q]
  have 2: "\<exists>e. run_tool network_down (ascii ''t1'') ?S ?q = ([researcher_tool_call ?S ?q], Inl e)"
    by blast
  have "fetch_search source_unavailable (ascii ''X'') 5 = Responds False (Inl NonError)"
    by (simp add: envs)
  with eq tool_invocation_results [where env = source_unavailable and i = "ascii ''t1''" and input = ?q
      and q = "ascii ''X''" and res = "Inl NonError"]
  have 3: "snd (run_tool source_unavailable (ascii ''t1'') ?S ?q) = Inr (ToolResult (ascii ''t1'') no_results)"
    by blast
  have "fetch_search nothing_found (ascii ''X'') 5 = Responds True (Inr \<lparr>pages = Some []\<rparr>) \<and>
    (case pages \<lparr>pages = Some []\<rparr> of None \<Rightarrow> [] | Some ps \<Rightarrow> ps) = []"
    by (simp add: envs)
  with eq tool_invocation_results [where env = nothing_found and i = "ascii ''t1''" and input = ?q
      and q = "ascii ''X''" and d = "\<lparr>pages = Some []\<rparr>"]
  have 4: "snd (run_tool nothing_found (ascii ''t1'') ?S ?q) = Inr (ToolResult (ascii ''t1'') no_results)"
    by blast
  have "fetch_summary source_unavailable (ascii ''X'') = Responds False (Inl NonError)"
    by (simp add: envs)
  with et tX tool_invocation_results [where env = source_unavailable and i = "ascii ''t2''" and input = ?t
      and t = "ascii ''X''" and res' = "Inl NonError"]
  have 5: "snd (run_tool source_unavailable (ascii ''t2'') ?A ?t) =
     Inr (ToolResult (ascii ''t2'') (article_not_found @ ascii ''X''))"
    by simp
  have "ascii ''delete_article'' \<noteq> ?S \<and> ascii ''delete_article'' \<noteq> ?A"
    by (simp add: ascii_def)
  with tool_invocation_results [where env = scenario and i = "ascii ''t3''"
      and name = "ascii ''delete_article''" and input = "[]"]
  have 6: "snd (run_tool scenario (ascii ''t3'') (ascii ''delete_article'') []) =
     Inr (ToolResult (ascii ''t3'') unknown_tool)"
    by simp
  from ebq tool_invocation_results [where env = scenario and i = "ascii ''t1''" and input = ?bq
      and e = "ErrorObj uri_malformed"]
  have 7: "snd (run_tool scenario (ascii ''t1'') ?S ?bq) = Inl (ErrorObj uri_malformed)"
    by simp
  have "fetch_search network_down (ascii ''X'') 5 = Rejects fetch_failed"
    by (simp add: envs)
  with eq tool_invocation_results [where env = network_down and i = "ascii ''t1''" and input = ?q
      and q = "ascii ''X''" and e = fetch_failed]
  have 8: "snd (run_tool network_down (ascii ''t1'') ?S ?q) = Inl fetch_failed"
    by simp
  have "fetch_search undecodable (ascii ''X'') 5 = Responds True (Inl unexpected_token)"
    by (simp add: envs)
  with eq tool_invocation_results [where env = undecodable and i = "ascii ''t1''" and input = ?q
      and q = "ascii ''X''" and e = unexpected_token]
  have 9: "snd (run_tool undecodable (ascii ''t1'') ?S ?q) = Inl unexpected_token"
    by simp
  from ebt tool_invocation_results [where env = scenario and i = "ascii ''t2''" and input = ?bt
      and e = "ErrorObj uri_malformed"]
  have 10: "snd (run_tool scenario (ascii ''t2'') ?A ?bt) = Inl (ErrorObj uri_malformed)"
    by simp
  have "fetch_summary network_down (ascii ''X'') = Rejects fetch_failed"
    by (simp add: envs)
  with et tool_invocation_results [where env = network_down and i = "ascii ''t2''" and input = ?t
      and t = "ascii ''X''" and e = fetch_failed]
  have 11: "snd (run_tool network_down (ascii ''t2'') ?A ?t) = Inl fetch_failed"
    by simp
  have "fetch_summary undecodable (ascii ''X'') = Responds True (Inl unexpected_token)"
    by (simp add: envs)
  with et tool_invocation_results [where env = undecodable and i = "ascii ''t2''" and input = ?t
      and t = "ascii ''X''" and e = unexpected_token]
  have 12: "snd (run_tool undecodable (ascii ''t2'') ?A ?t) = Inl unexpected_token"
    by simp
  from a 1 b 2 3 4 5 6 7 8 9 10 11 12 show ?thesis
    by blast
qed

text \<open>
  A tool invocation does let an exception out of the loop: when the request to the
  knowledge source is rejected, the loop ends in the throw and the run in an error event.
\<close>

theorem tool_exception_leaves_loop_counterexample:
  "research_loop 1 network_down (ascii ''sonnet'') [seed_X] =
     ([researcher_tool_call (ascii ''search_wikipedia'') [(ascii ''query'', ascii ''X'')]],
      Throws fetch_failed) \<and>
   closed (POST 1 network_down ask_X) \<and>
   last (events (POST 1 network_down ask_X)) = error_event (ascii ''fetch failed'')"
  by code_simp

text \<open>
  C8, as the handler has it. For a query that can be written into the URL, the search
  operation asks the source for at most 5 pages and returns one candidate per page of
  the response, in the order of the response, with the page's title and with its
  excerpt stripped of every tag (the empty string for a page without excerpt); it does
  not cut the list itself, so the list has at most 5 candidates when the source keeps
  to the limit. It returns the empty list when the source answers with a failure
  status. For a title that can be written into the URL, the fetch-article operation
  returns the extract of the article (a fixed text when the article has none) when the
  source answers with success, and the not-found text with the title when it answers
  with a failure status. A query or a title that holds a surrogate without its partner
  cannot be written into the URL: the operation throws before any request is made.
\<close>

theorem wikipedia_operations:
  "(encodeURIComponent (to_string query) = Inr q \<and>
    fetch_search env q 5 = Responds True (Inr d) \<longrightarrow>
      (\<exists>rs. searchWikipedia env query = Inr rs \<and>
            length rs = length (case pages d of None \<Rightarrow> [] | Some ps \<Rightarrow> ps) \<and>
            map r_title rs = map p_title (case pages d of None \<Rightarrow> [] | Some ps \<Rightarrow> ps) \<and>
            map snippet rs =
              map (\<lambda>p. case excerpt p of None \<Rightarrow> [] | Some x \<Rightarrow> strip_tags x)
                (case pages d of None \<Rightarrow> [] | Some ps \<Rightarrow> ps) \<and>
            list_all (\<lambda>r. \<not> has_tag (snippet r)) rs)) \<and>
   (honours_limit env \<longrightarrow> (\<forall>rs. searchWikipedia env query = Inr rs \<longrightarrow> length rs \<le> 5)) \<and>
   (encodeURIComponent (to_string query) = Inr q \<and>
    fetch_search env q 5 = Responds False res \<longrightarrow> searchWikipedia env query = Inr []) \<and>
   (encodeURIComponent (to_string ttl) = Inr t \<and>
    fetch_summary env t = Responds True (Inr sd) \<longrightarrow>
      getWikipediaArticle env ttl =
        Inr (case summary_extract sd of None \<Rightarrow> article_without_content | Some x \<Rightarrow> x)) \<and>
   (encodeURIComponent (to_string ttl) = Inr t \<and>
    fetch_summary env t = Responds False res' \<longrightarrow>
      getWikipediaArticle env ttl = Inr (article_not_found @ to_string ttl)) \<and>
   (encodeURIComponent (to_string query) = Inl e \<longrightarrow> searchWikipedia env query = Inl e) \<and>
   (encodeURIComponent (to_string ttl) = Inl e \<longrightarrow> getWikipediaArticle env ttl = Inl e)"
proof (intro conjI impI allI)
  assume a: "encodeURIComponent (to_string query) = Inr q \<and>
    fetch_search env q 5 = Responds True (Inr d)"
  let ?ps = "case pages d of None \<Rightarrow> [] | Some ps \<Rightarrow> ps"
  let ?rs = "map (\<lambda>p. Candidate (p_title p) (case excerpt p of None \<Rightarrow> [] | Some x \<Rightarrow> strip_tags x)) ?ps"
  have "list_all (\<lambda>r. \<not> has_tag (snippet r)) ?rs"
    by (auto simp: list_all_iff strip_tags_no_tag split: option.splits)
  with searchWikipedia_ok [of query q env d] a
  show "\<exists>rs. searchWikipedia env query = Inr rs \<and>
            length rs = length ?ps \<and>
            map r_title rs = map p_title ?ps \<and>
            map snippet rs = map (\<lambda>p. case excerpt p of None \<Rightarrow> [] | Some x \<Rightarrow> strip_tags x) ?ps \<and>
            list_all (\<lambda>r. \<not> has_tag (snippet r)) rs"
    by (intro exI [of _ ?rs]) (simp add: comp_def)
next
  fix rs
  assume h: "honours_limit env" and s: "searchWikipedia env query = Inr rs"
  from s obtain u where u: "encodeURIComponent (to_string query) = Inr u"
    by (cases "encodeURIComponent (to_string query)") (simp_all add: searchWikipedia_def)
  show "length rs \<le> 5"
  proof (cases "fetch_search env u 5")
    case (Rejects e)
    with s u show ?thesis by (simp add: searchWikipedia_def)
  next
    case (Responds ok r)
    show ?thesis
    proof (cases "ok")
      case False
      with s u Responds show ?thesis by (simp add: searchWikipedia_def)
    next
      case True
      with s u Responds obtain d where d: "r = Inr d"
        by (cases r) (auto simp: searchWikipedia_def)
      show ?thesis
      proof (cases "pages d")
        case None
        with s u Responds True d show ?thesis by (auto simp: searchWikipedia_def)
      next
        case (Some ps)
        with h Responds d have "length ps \<le> 5"
          unfolding honours_limit_def by blast
        with s u Responds True d Some show ?thesis by (auto simp: searchWikipedia_def)
      qed
    qed
  qed
next
  assume "encodeURIComponent (to_string query) = Inr q \<and> fetch_search env q 5 = Responds False res"
  then show "searchWikipedia env query = Inr []"
    by (simp add: searchWikipedia_def)
next
  assume "encodeURIComponent (to_string ttl) = Inr t \<and> fetch_summary env t = Responds True (Inr sd)"
  then show "getWikipediaArticle env ttl =
        Inr (case summary_extract sd of None \<Rightarrow> article_without_content | Some x \<Rightarrow> x)"
    by (simp add: getWikipediaArticle_def)
next
  assume "encodeURIComponent (to_string ttl) = Inr t \<and> fetch_summary env t = Responds False res'"
  then show "getWikipediaArticle env ttl = Inr (article_not_found @ to_string ttl)"
    by (simp add: getWikipediaArticle_def)
next
  assume "encodeURIComponent (to_string query) = Inl e"
  then show "searchWikipedia env query = Inl e"
    by (simp add: searchWikipedia_def)
next
  assume "encodeURIComponent (to_string ttl) = Inl e"
  then show "getWikipediaArticle env ttl = Inl e"
    by (simp add: getWikipediaArticle_def)
qed

lemma scenario_honours_limit: "honours_limit scenario"
  by (auto simp: honours_limit_def scenario_def scripted_env_def one_page_def)

theorem wikipedia_operations_witness:
  "searchWikipedia scenario (Some (ascii ''X'')) = Inr [Candidate (ascii ''X'') (ascii ''the letter X'')] \<and>
   honours_limit scenario \<and>
   searchWikipedia source_unavailable (Some (ascii ''X'')) = Inr [] \<and>
   getWikipediaArticle scenario (Some (ascii ''X'')) = Inr (ascii ''X is a letter.'') \<and>
   getWikipediaArticle source_unavailable (Some (ascii ''X'')) = Inr (article_not_found @ ascii ''X'') \<and>
   searchWikipedia scenario (Some lone_surrogate) = Inl (ErrorObj uri_malformed) \<and>
   getWikipediaArticle scenario (Some lone_surrogate) = Inl (ErrorObj uri_malformed)"
proof -
  let ?d = "\<lparr>pages = Some [Page (ascii ''X'') (Some (ascii ''the <b>letter</b> X''))]\<rparr>"
  let ?sd = "\<lparr>summary_extract = Some (ascii ''X is a letter.'')\<rparr>"
  have x: "encodeURIComponent (to_string (Some (ascii ''X''))) = Inr (ascii ''X'')"
    by code_simp
  have y: "encodeURIComponent (to_string (Some lone_surrogate)) = Inl (ErrorObj uri_malformed)"
    by code_simp
  have a: "fetch_search scenario (ascii ''X'') 5 = Responds True (Inr ?d)"
    by (simp add: scenario_def scripted_env_def one_page_def)
  have b: "fetch_search source_unavailable (ascii ''X'') 5 = Responds False (Inl NonError)"
    by (simp add: source_unavailable_def scripted_env_def)
  have c: "fetch_summary scenario (ascii ''X'') = Responds True (Inr ?sd)"
    by (simp add: scenario_def scripted_env_def summary_of_X_def)
  have e: "fetch_summary source_unavailable (ascii ''X'') = Responds False (Inl NonError)"
    by (simp add: source_unavailable_def scripted_env_def)
  have st: "strip_tags (ascii ''the <b>letter</b> X'') = ascii ''the letter X''"
    by code_simp
  from wikipedia_operations [where env = scenario and query = "Some (ascii ''X'')" and q = "ascii ''X''"
      and d = ?d and ttl = "Some (ascii ''X'')" and t = "ascii ''X''" and sd = ?sd] x a c
  obtain rs where rs: "searchWikipedia scenario (Some (ascii ''X'')) = Inr rs"
    "map r_title rs = [ascii ''X'']" "map snippet rs = [ascii ''the letter X'']"
    and 4: "getWikipediaArticle scenario (Some (ascii ''X'')) = Inr (ascii ''X is a letter.'')"
    by (auto simp: st)
  from rs(2,3) have "rs = [Candidate (ascii ''X'') (ascii ''the letter X'')]"
    by (cases rs) (auto simp: candidate.expand)
  with rs(1) have 1: "searchWikipedia scenario (Some (ascii ''X'')) =
      Inr [Candidate (ascii ''X'') (ascii ''the letter X'')]"
    by simp
  from wikipedia_operations [where env = source_unavailable and query = "Some (ascii ''X'')"
      and q = "ascii ''X''" and res = "Inl NonError" and ttl = "Some (ascii ''X'')"
      and t = "ascii ''X''" and res' = "Inl NonError"] x b e
  have 3: "searchWikipedia source_unavailable (Some (ascii ''X'')) = Inr []"
    and 5: "getWikipediaArticle source_unavailable (Some (ascii ''X'')) = Inr (article_not_found @ ascii ''X'')"
    by (simp_all add: to_string_def)
  from wikipedia_operations [where env = scenario and query = "Some lone_surrogate"
      and ttl = "Some lone_surrogate" and e = "ErrorObj uri_malformed"] y
  have 6: "searchWikipedia scenario (Some lone_surrogate) = Inl (ErrorObj uri_malformed)"
    and 7: "getWikipediaArticle scenario (Some lone_surrogate) = Inl (ErrorObj uri_malformed)"
    by simp_all
  from 1 scenario_honours_limit 3 4 5 6 7 show ?thesis
    by blast
qed

text \<open>
  The list is as long as the response: a source that returns six pages makes the search
  return six candidates.
\<close>

theorem search_more_than_five_counterexample:
  "encodeURIComponent (to_string (Some (ascii ''X''))) = Inr (ascii ''X'') \<and>
   fetch_search six_pages (ascii ''X'') 5 =
     Responds True (Inr \<lparr>pages = Some (replicate 6 (Page (ascii ''X'') None))\<rparr>) \<and>
   searchWikipedia six_pages (Some (ascii ''X'')) = Inr (replicate 6 (Candidate (ascii ''X'') [])) \<and>
   5 < length (replicate 6 (Candidate (ascii ''X'') []))"
  by code_simp

text \<open>
  C9, as the handler has it. In an iteration that answers its tool invocation requests,
  the user turn appended to the history, which goes back to the model, holds for every
  request the full result string of its execution, of whatever length. The
  research-tool-result events of the iteration are, request by request: for an
  article, the result itself when it has at most 120 code units and its first 120 code
  units followed by an ellipsis when it is longer; for a search, the titles of the
  candidates joined by commas, with their count, whatever the length.
\<close>

theorem display_cap_not_storage_cap:
  assumes "stop_reason r = tool_use"
      and "research_turn env msgs r = (evs, Next msgs')"
  shows "(\<exists>results.
            msgs' = msgs @ [MessageParam assistant (Blocks (content r)),
                            MessageParam user (ToolResults results)] \<and>
            map (\<lambda>t. Inr (result_content t)) results =
              map (full_result env) (filter is_tool_use (content r))) \<and>
         map Inr (filter (\<lambda>e. kind e = research_tool_result) evs) =
           map (shown_result env) (filter is_tool_use (content r)) \<and>
         (\<forall>b s. b \<in> set (content r) \<and> use_name b = ascii ''get_wikipedia_article'' \<and>
                full_result env b = Inr s \<longrightarrow>
            shown_result env b =
              Inr (researcher_tool_result (ascii ''get_wikipedia_article'')
                     (if 120 < length s then take 120 s @ [ellipsis] else s) None)) \<and>
         (\<forall>b results. b \<in> set (content r) \<and> use_name b = ascii ''search_wikipedia'' \<and>
                searchWikipedia env (map_of (use_input b) (ascii ''query'')) = Inr results \<longrightarrow>
            full_result env b =
              Inr (if results \<noteq> [] then join [0x0A] (map bullet_line results) else no_results) \<and>
            shown_result env b =
              Inr (researcher_tool_result (ascii ''search_wikipedia'')
                     (if results \<noteq> [] then join (ascii '', '') (map r_title results)
                      else no_results_preview)
                     (Some (length results))))"
proof (intro conjI allI impI)
  from research_turn_next [OF assms(2)] obtain results evs' where
    d: "dispatch env (filter is_tool_use (content r)) = (evs', Inr results)" and
    m: "msgs' = msgs @ [MessageParam assistant (Blocks (content r)),
                        MessageParam user (ToolResults results)]"
    by blast
  note f = dispatch_full [OF d]
  from f m
  show "\<exists>results.
            msgs' = msgs @ [MessageParam assistant (Blocks (content r)),
                            MessageParam user (ToolResults results)] \<and>
            map (\<lambda>t. Inr (result_content t)) results =
              map (full_result env) (filter is_tool_use (content r))"
    by auto
  from assms d have evs: "evs = thinking (content r) @ evs'"
    by (simp add: research_turn_def)
  have "filter (\<lambda>e. kind e = research_tool_result) (thinking (content r)) = []"
    by (rule thinking_no_results)
  with f evs
  show "map Inr (filter (\<lambda>e. kind e = research_tool_result) evs) =
           map (shown_result env) (filter is_tool_use (content r))"
    by simp
next
  fix b s
  assume "b \<in> set (content r) \<and> use_name b = ascii ''get_wikipedia_article'' \<and>
          full_result env b = Inr s"
  then have n: "use_name b = ascii ''get_wikipedia_article''" and s: "full_result env b = Inr s"
    by simp_all
  from n s tool_names_differ
  show "shown_result env b =
          Inr (researcher_tool_result (ascii ''get_wikipedia_article'')
                 (if 120 < length s then take 120 s @ [ellipsis] else s) None)"
    by (simp add: full_result_def shown_result_def)
next
  fix b results
  assume a: "b \<in> set (content r) \<and> use_name b = ascii ''search_wikipedia'' \<and>
          searchWikipedia env (map_of (use_input b) (ascii ''query'')) = Inr results"
  then have n: "use_name b = ascii ''search_wikipedia''" and
    s: "searchWikipedia env (map_of (use_input b) (ascii ''query'')) = Inr results"
    by simp_all
  from n s show "full_result env b =
          Inr (if results \<noteq> [] then join [0x0A] (map bullet_line results) else no_results)"
    by (simp add: full_result_def)
  from n s show "shown_result env b =
          Inr (researcher_tool_result (ascii ''search_wikipedia'')
                 (if results \<noteq> [] then join (ascii '', '') (map r_title results)
                  else no_results_preview)
                 (Some (length results)))"
    by (simp add: shown_result_def)
qed

theorem display_cap_not_storage_cap_witness:
  "stop_reason two_articles = tool_use \<and>
   research_turn long_article [seed_X] two_articles =
     ([researcher_tool_call (ascii ''get_wikipedia_article'') [(ascii ''title'', ascii ''X'')],
       researcher_tool_result (ascii ''get_wikipedia_article'') (replicate 120 0x61 @ [ellipsis]) None,
       researcher_tool_call (ascii ''get_wikipedia_article'') [(ascii ''title'', ascii ''Y'')],
       researcher_tool_result (ascii ''get_wikipedia_article'') (replicate 120 0x61 @ [ellipsis]) None],
      Next [seed_X, MessageParam assistant (Blocks (content two_articles)),
            MessageParam user
              (ToolResults [ToolResult (ascii ''t2'') (replicate 200 0x61),
                            ToolResult (ascii ''t3'') (replicate 200 0x61)])]) \<and>
   map (full_result long_article) (filter is_tool_use (content two_articles)) =
     [Inr (replicate 200 0x61), Inr (replicate 200 0x61)] \<and>
   map (shown_result long_article) (filter is_tool_use (content two_articles)) =
     [Inr (researcher_tool_result (ascii ''get_wikipedia_article'') (replicate 120 0x61 @ [ellipsis]) None),
      Inr (researcher_tool_result (ascii ''get_wikipedia_article'') (replicate 120 0x61 @ [ellipsis]) None)]"
proof -
  let ?A = "ascii ''get_wikipedia_article''"
  let ?shown = "researcher_tool_result ?A (replicate 120 0x61 @ [ellipsis]) None"
  let ?evs = "[researcher_tool_call ?A [(ascii ''title'', ascii ''X'')], ?shown,
               researcher_tool_call ?A [(ascii ''title'', ascii ''Y'')], ?shown]"
  let ?stored = "[ToolResult (ascii ''t2'') (replicate 200 0x61), ToolResult (ascii ''t3'') (replicate 200 0x61)]"
  let ?msgs = "[seed_X, MessageParam assistant (Blocks (content two_articles)),
                MessageParam user (ToolResults ?stored)]"
  have s: "stop_reason two_articles = tool_use"
    by (simp add: two_articles_def)
  have h: "research_turn long_article [seed_X] two_articles = (?evs, Next ?msgs)"
    by code_simp
  from display_cap_not_storage_cap [OF s h]
  have "map (\<lambda>t. Inr (result_content t)) ?stored =
          map (full_result long_article) (filter is_tool_use (content two_articles))"
    and "map Inr (filter (\<lambda>e. kind e = research_tool_result) ?evs) =
          map (shown_result long_article) (filter is_tool_use (content two_articles))"
    by auto
  then have "map (full_result long_article) (filter is_tool_use (content two_articles)) =
      [Inr (replicate 200 0x61), Inr (replicate 200 0x61)]"
    and "map (shown_result long_article) (filter is_tool_use (content two_articles)) =
      [Inr ?shown, Inr ?shown]"
    by simp_all
  with s h show ?thesis
    by simp
qed

text \<open>
  The event of a search does not carry a cut result: with a title of 130 code units the
  result is long, and the event shows the whole title, which is no start of the result
  and has no ellipsis.
\<close>

theorem search_preview_not_truncated_counterexample:
  "run_tool long_title (ascii ''t1'') (ascii ''search_wikipedia'') [(ascii ''query'', ascii ''X'')] =
     ([researcher_tool_call (ascii ''search_wikipedia'') [(ascii ''query'', ascii ''X'')],
       researcher_tool_result (ascii ''search_wikipedia'') (replicate 130 0x61) (Some 1)],
      Inr (ToolResult (ascii ''t1'') ([0x2022, 0x20] @ replicate 130 0x61 @ [0x3A, 0x20]))) \<and>
   120 < length ([0x2022, 0x20] @ replicate 130 (0x61 :: code_unit) @ [0x3A, 0x20]) \<and>
   120 < length (replicate 130 (0x61 :: code_unit)) \<and>
   ellipsis \<notin> set (replicate 130 0x61) \<and>
   take 130 ([0x2022, 0x20] @ replicate 130 0x61 @ [0x3A, 0x20]) \<noteq> replicate 130 (0x61 :: code_unit)"
  by code_simp

text \<open>
  C1, as the handler has it. What the handler does with the planner's text is decided
  by \<^verbatim>\<open>JSON.parse\<close> on the part of the text from the first \<^verbatim>\<open>{\<close> to the last \<^verbatim>\<open>}\<close>, or on
  the whole text when there is no such part. When \<^verbatim>\<open>JSON.parse\<close> throws, as it does on
  the empty string, the fallback is taken: the plan-produced event carries the question
  as search term and the default directive as response format, and the run goes on with
  that plan; it completes, with a synthesis-done and a pipeline-done event and no error
  event, whenever the research loop returns and the synthesizer's response has a block.
  When \<^verbatim>\<open>JSON.parse\<close> returns a value other than \<^verbatim>\<open>null\<close>, that value is the plan as it
  is: the search term and the response format are its members of those names, and
  \<^verbatim>\<open>undefined\<close> where it has none; the delegation to the researcher follows unless the
  search term does not convert to a string. When \<^verbatim>\<open>JSON.parse\<close> returns \<^verbatim>\<open>null\<close>, the
  read of the search term throws and the run ends with an error event after the
  planning-start event.
\<close>

theorem planner_fallback:
  assumes "messages_create env (supervisor_request rq) = Inr resp"
      and "first_block_text (content resp) = Inr raw"
  shows "(JSON_parse (plan_text raw) = None \<longrightarrow>
            planning env rq =
              ([supervisor_start supervisor_start_message,
                supervisor_plan (Some (JStr (question rq))) (Some (JStr default_format)),
                supervisor_delegate researcher (researcherInstruction (Some (JStr (question rq))))],
               Inr (fallback_plan rq)) \<and>
            (research n env rq (fallback_plan rq) = (evs, Returns summary) \<and>
             messages_create env (synthesizer_request rq (fallback_plan rq) summary) = Inr answer \<and>
             content answer = b # bs \<longrightarrow>
               closed (POST n env rq) \<and>
               map kind (events (POST n env rq)) =
                 [planning_start, plan_produced, delegate researcher] @ map kind evs @
                 [review, delegate synthesizer, synthesis_start, synthesis_done, pipeline_done] \<and>
               error_kind \<notin> set (map kind (events (POST n env rq))))) \<and>
         JSON_parse (plan_text []) = None \<and>
         (\<forall>v. JSON_parse (plan_text raw) = Some v \<and> v \<noteq> JNull \<longrightarrow>
            planning env rq =
              (if template_throws (own_member v (ascii ''search_term''))
               then ([supervisor_start supervisor_start_message,
                      supervisor_plan (own_member v (ascii ''search_term''))
                        (own_member v (ascii ''response_format''))],
                     Inl (ErrorObj not_primitive_message))
               else ([supervisor_start supervisor_start_message,
                      supervisor_plan (own_member v (ascii ''search_term''))
                        (own_member v (ascii ''response_format'')),
                      supervisor_delegate researcher
                        (researcherInstruction (own_member v (ascii ''search_term'')))],
                     Inr \<lparr>search_term = own_member v (ascii ''search_term''),
                          response_format = own_member v (ascii ''response_format'')\<rparr>))) \<and>
         (JSON_parse (plan_text raw) = Some JNull \<longrightarrow>
            planning env rq =
              ([supervisor_start supervisor_start_message],
               Inl (ErrorObj (null_property_message (ascii ''search_term'')))) \<and>
            POST n env rq =
              \<lparr>events = [supervisor_start supervisor_start_message,
                         error_event (null_property_message (ascii ''search_term''))],
               closed = True\<rparr>)"
proof (intro conjI allI impI)
  show "JSON_parse (plan_text []) = None"
    by (rule JSON_parse_empty)
next
  fix v
  assume "JSON_parse (plan_text raw) = Some v \<and> v \<noteq> JNull"
  then have "JSON_parse (plan_text raw) = Some v" and "v \<noteq> JNull"
    by simp_all
  from planning_parsed [OF assms this]
  show "planning env rq =
          (if template_throws (own_member v (ascii ''search_term''))
           then ([supervisor_start supervisor_start_message,
                  supervisor_plan (own_member v (ascii ''search_term''))
                    (own_member v (ascii ''response_format''))],
                 Inl (ErrorObj not_primitive_message))
           else ([supervisor_start supervisor_start_message,
                  supervisor_plan (own_member v (ascii ''search_term''))
                    (own_member v (ascii ''response_format'')),
                  supervisor_delegate researcher
                    (researcherInstruction (own_member v (ascii ''search_term'')))],
                 Inr \<lparr>search_term = own_member v (ascii ''search_term''),
                      response_format = own_member v (ascii ''response_format'')\<rparr>))" .
next
  assume "JSON_parse (plan_text raw) = Some JNull"
  then have "resolve_plan (question rq) raw = JNull"
    by (simp add: resolve_plan_def)
  with assms show pn: "planning env rq =
      ([supervisor_start supervisor_start_message],
       Inl (ErrorObj (null_property_message (ascii ''search_term''))))"
    by (simp add: planning_def read_property_def)
  then show "POST n env rq =
      \<lparr>events = [supervisor_start supervisor_start_message,
                 error_event (null_property_message (ascii ''search_term''))],
       closed = True\<rparr>"
    by (simp add: POST_def pipeline_def error_message_def)
next
  assume none: "JSON_parse (plan_text raw) = None"
  note pl = planning_fallback [OF assms none]
  show "planning env rq =
           ([supervisor_start supervisor_start_message,
             supervisor_plan (Some (JStr (question rq))) (Some (JStr default_format)),
             supervisor_delegate researcher (researcherInstruction (Some (JStr (question rq))))],
            Inr (fallback_plan rq))"
    by (rule pl)
  assume a: "research n env rq (fallback_plan rq) = (evs, Returns summary) \<and>
          messages_create env (synthesizer_request rq (fallback_plan rq) summary) = Inr answer \<and>
          content answer = b # bs"
  then have "first_block_text (content answer) = Inr (if is_text b then block_text b else [])"
    by (cases b) (simp_all add: first_block_text_def)
  with a have sy: "synthesis env rq (fallback_plan rq) summary =
      ([supervisor_review supervisor_review_message,
        supervisor_delegate synthesizer
          (synthesizerInstruction (question rq) (response_format (fallback_plan rq))),
        synthesizer_start,
        synthesizer_done (if is_text b then block_text b else []),
        supervisor_done],
       Inr (if is_text b then block_text b else []))"
    by (simp add: synthesis_def fallback_plan_def template_throws_def)
  from pl a sy have post: "POST n env rq =
      \<lparr>events = fst (planning env rq) @ evs @ fst (synthesis env rq (fallback_plan rq) summary),
       closed = True\<rparr>"
    by (simp add: POST_def pipeline_def)
  from post show "closed (POST n env rq)"
    by simp
  from post pl sy show k: "map kind (events (POST n env rq)) =
              [planning_start, plan_produced, delegate researcher] @ map kind evs @
              [review, delegate synthesizer, synthesis_start, synthesis_done, pipeline_done]"
    by simp
  from a obtain evs' where
    "research_loop n env (researcherModel rq) [researcher_seed (search_term (fallback_plan rq))] =
       (evs', Returns summary)" and e: "evs = researcher_start # evs'"
    by (auto simp: research_def split: prod.splits)
  from research_loop_kinds [OF this(1)] obtain mid where
    "map kind evs' = mid @ [research_done]" "set mid \<subseteq> set research_kinds"
    by auto
  with e have "error_kind \<notin> set (map kind evs)"
    by (auto simp: research_kinds_def)
  then show "error_kind \<notin> set (map kind (events (POST n env rq)))"
    unfolding k by simp
qed

theorem planner_fallback_witness:
  "planning prose_planner ask_X =
     ([supervisor_start supervisor_start_message,
       supervisor_plan (Some (JStr (ascii ''What is X?''))) (Some (JStr default_format)),
       supervisor_delegate researcher (researcherInstruction (Some (JStr (ascii ''What is X?''))))],
      Inr (fallback_plan ask_X)) \<and>
   closed (POST 1 prose_planner ask_X) \<and>
   map kind (events (POST 1 prose_planner ask_X)) =
     [planning_start, plan_produced, delegate researcher, research_start, research_thinking,
      research_done, review, delegate synthesizer, synthesis_start, synthesis_done, pipeline_done] \<and>
   planning scenario ask_X =
     ([supervisor_start supervisor_start_message,
       supervisor_plan (Some (JStr (ascii ''X''))) (Some (JStr (ascii ''short summary''))),
       supervisor_delegate researcher (researcherInstruction (Some (JStr (ascii ''X''))))],
      Inr plan_X) \<and>
   planning empty_object_planner ask_X =
     ([supervisor_start supervisor_start_message,
       supervisor_plan None None,
       supervisor_delegate researcher (researcherInstruction None)],
      Inr \<lparr>search_term = None, response_format = None\<rparr>) \<and>
   POST 1 null_planner ask_X =
     \<lparr>events = [supervisor_start supervisor_start_message,
                error_event (null_property_message (ascii ''search_term''))],
      closed = True\<rparr>"
proof -
  let ?prose = "ascii ''I would look up the letter X.''"
  let ?answer = "\<lparr>content = [TextBlock (ascii ''# X'')], stop_reason = end_turn\<rparr>"
  let ?evs = "[researcher_start, researcher_thinking (ascii ''X is ...''), researcher_done]"
  let ?json = "JObj [(ascii ''search_term'', JStr (ascii ''X'')),
                     (ascii ''response_format'', JStr (ascii ''short summary''))]"
  have a: "messages_create prose_planner (supervisor_request ask_X) =
             Inr \<lparr>content = [TextBlock ?prose], stop_reason = end_turn\<rparr>"
    by (simp add: prose_planner_def scripted_env_def supervisor_request_def text_reply_def)
  have b: "\<And>t. first_block_text (content \<lparr>content = [TextBlock t], stop_reason = end_turn\<rparr>) = Inr t"
    by (simp add: first_block_text_def)
  have c: "JSON_parse (plan_text ?prose) = None"
    by code_simp
  have d: "research 1 prose_planner ask_X (fallback_plan ask_X) = (?evs, Returns (ascii ''X is ...''))"
    by code_simp
  have e: "messages_create prose_planner
      (synthesizer_request ask_X (fallback_plan ask_X) (ascii ''X is ...'')) = Inr ?answer"
    by (simp add: prose_planner_def scripted_env_def synthesizer_request_def text_reply_def)
  have f: "content ?answer = TextBlock (ascii ''# X'') # []"
    by simp
  from planner_fallback [OF a b, where n = 1 and evs = ?evs and summary = "ascii ''X is ...''"
      and answer = ?answer and b = "TextBlock (ascii ''# X'')" and bs = "[]"] c d e f
  have 1: "planning prose_planner ask_X =
     ([supervisor_start supervisor_start_message,
       supervisor_plan (Some (JStr (question ask_X))) (Some (JStr default_format)),
       supervisor_delegate researcher (researcherInstruction (Some (JStr (question ask_X))))],
      Inr (fallback_plan ask_X)) \<and>
     closed (POST 1 prose_planner ask_X) \<and>
     map kind (events (POST 1 prose_planner ask_X)) =
       [planning_start, plan_produced, delegate researcher, research_start, research_thinking,
        research_done, review, delegate synthesizer, synthesis_start, synthesis_done, pipeline_done]"
    by simp
  have g: "messages_create scenario (supervisor_request ask_X) =
             Inr \<lparr>content = [TextBlock plan_json], stop_reason = end_turn\<rparr>"
    by (simp add: scenario_def scripted_env_def supervisor_request_def text_reply_def)
  have h: "JSON_parse (plan_text plan_json) = Some ?json"
    by code_simp
  have i: "own_member ?json (ascii ''search_term'') = Some (JStr (ascii ''X''))"
          "own_member ?json (ascii ''response_format'') = Some (JStr (ascii ''short summary''))"
    by code_simp+
  from planner_fallback [OF g b] h
  have "planning scenario ask_X =
          (if template_throws (own_member ?json (ascii ''search_term''))
           then ([supervisor_start supervisor_start_message,
                  supervisor_plan (own_member ?json (ascii ''search_term''))
                    (own_member ?json (ascii ''response_format''))],
                 Inl (ErrorObj not_primitive_message))
           else ([supervisor_start supervisor_start_message,
                  supervisor_plan (own_member ?json (ascii ''search_term''))
                    (own_member ?json (ascii ''response_format'')),
                  supervisor_delegate researcher
                    (researcherInstruction (own_member ?json (ascii ''search_term'')))],
                 Inr \<lparr>search_term = own_member ?json (ascii ''search_term''),
                      response_format = own_member ?json (ascii ''response_format'')\<rparr>))"
    by simp
  then have 2: "planning scenario ask_X =
     ([supervisor_start supervisor_start_message,
       supervisor_plan (Some (JStr (ascii ''X''))) (Some (JStr (ascii ''short summary''))),
       supervisor_delegate researcher (researcherInstruction (Some (JStr (ascii ''X''))))],
      Inr plan_X)"
    unfolding i by (simp add: template_throws_def plan_X_def)
  have j: "messages_create empty_object_planner (supervisor_request ask_X) =
             Inr \<lparr>content = [TextBlock (ascii ''{}'')], stop_reason = end_turn\<rparr>"
    by (simp add: empty_object_planner_def scripted_env_def supervisor_request_def text_reply_def)
  have k: "JSON_parse (plan_text (ascii ''{}'')) = Some (JObj [])"
    by code_simp
  from planner_fallback [OF j b] k
  have 3: "planning empty_object_planner ask_X =
     ([supervisor_start supervisor_start_message,
       supervisor_plan None None,
       supervisor_delegate researcher (researcherInstruction None)],
      Inr \<lparr>search_term = None, response_format = None\<rparr>)"
    by (simp add: own_member_def template_throws_def)
  have l: "messages_create null_planner (supervisor_request ask_X) =
             Inr \<lparr>content = [TextBlock (ascii ''null'')], stop_reason = end_turn\<rparr>"
    by (simp add: null_planner_def scripted_env_def supervisor_request_def text_reply_def)
  have m: "JSON_parse (plan_text (ascii ''null'')) = Some JNull"
    by code_simp
  from planner_fallback [OF l b, where n = 1] m
  have 4: "POST 1 null_planner ask_X =
     \<lparr>events = [supervisor_start supervisor_start_message,
                error_event (null_property_message (ascii ''search_term''))],
      closed = True\<rparr>"
    by simp
  from 1 2 3 4 show ?thesis
    by (simp add: ask_X_def)
qed

text \<open>
  JSON without the two fields is no cause for the fallback: the empty object parses, so
  it is the plan, and the plan-produced event carries \<^verbatim>\<open>undefined\<close> for both fields, not
  the question and the default directive. And a planner's text that parses to \<^verbatim>\<open>null\<close>
  has neither field, and the run does not complete: it ends with an error event and
  has no synthesis-done event.
\<close>

theorem planner_missing_fields_counterexample:
  "malformed_planner_output (ascii ''{}'') \<and>
   messages_create empty_object_planner (supervisor_request ask_X) =
     Inr \<lparr>content = [TextBlock (ascii ''{}'')], stop_reason = end_turn\<rparr> \<and>
   planning empty_object_planner ask_X =
     ([supervisor_start supervisor_start_message,
       supervisor_plan None None,
       supervisor_delegate researcher (researcherInstruction None)],
      Inr \<lparr>search_term = None, response_format = None\<rparr>) \<and>
   fallback_plan ask_X \<noteq> \<lparr>search_term = None, response_format = None\<rparr> \<and>
   malformed_planner_output (ascii ''null'') \<and>
   messages_create null_planner (supervisor_request ask_X) =
     Inr \<lparr>content = [TextBlock (ascii ''null'')], stop_reason = end_turn\<rparr> \<and>
   closed (POST 1 null_planner ask_X) \<and>
   map kind (events (POST 1 null_planner ask_X)) = [planning_start, error_kind]"
  by code_simp

end
